theory Spec2Isabelle
  imports Complex_Main "HOL-Library.AList"
begin

section \<open>Records: untyped Python dictionaries\<close>

text \<open>
  A record produced by a collector is a Python \<open>dict\<close> from field names to values.
  The values the storage layer distinguishes are the ones \<open>isinstance\<close> is asked
  about in \<open>core/storage.py\<close>: \<open>str\<close>, \<open>int\<close> (of which \<open>bool\<close> is a subclass),
  \<open>float\<close>, \<open>list\<close>, \<open>dict\<close> and \<open>None\<close>; every other object (a datetime, a
  tuple, ...) is \<open>VOther\<close>, tagged with the name of its type.
  A dict keeps insertion order and has unique keys: it is an association list, and
  \<open>d[k] = v\<close> is \<open>AList.update k v d\<close> (overwrite in place, else append).
\<close>

datatype pyval =
    VStr string
  | VInt int
  | VFloat real
  | VBool bool
  | VNone
  | VList "pyval list"
  | VDict "(string \<times> pyval) list"
  | VOther string

type_synonym pydict = "(string \<times> pyval) list"

fun isinstance_str :: "pyval \<Rightarrow> bool" where
  "isinstance_str (VStr _) = True"
| "isinstance_str _ = False"

text \<open>\<open>isinstance(True, int)\<close> holds in Python: \<open>bool\<close> is a subclass of \<open>int\<close>.\<close>

fun isinstance_int :: "pyval \<Rightarrow> bool" where
  "isinstance_int (VInt _) = True"
| "isinstance_int (VBool _) = True"
| "isinstance_int _ = False"

fun isinstance_float :: "pyval \<Rightarrow> bool" where
  "isinstance_float (VFloat _) = True"
| "isinstance_float _ = False"

fun isinstance_list :: "pyval \<Rightarrow> bool" where
  "isinstance_list (VList _) = True"
| "isinstance_list _ = False"

fun isinstance_dict :: "pyval \<Rightarrow> bool" where
  "isinstance_dict (VDict _) = True"
| "isinstance_dict _ = False"

fun list_items :: "pyval \<Rightarrow> pyval list" where
  "list_items (VList xs) = xs"
| "list_items _ = []"

text \<open>\<open>data.get(key, default)\<close>\<close>

definition dict_get :: "pydict \<Rightarrow> string \<Rightarrow> pyval \<Rightarrow> pyval" where
  "dict_get d k dflt = (case map_of d k of None \<Rightarrow> dflt | Some v \<Rightarrow> v)"

section \<open>Relational sink: schema inference\<close>

text \<open>
  The body of the loop of \<open>PostgresDataStorage._determine_table_schema\<close>, one
  \<open>if\<close>/\<open>elif\<close> branch per line, in the order of the source. \<open>None\<close> is the
  \<open>continue\<close> of the branch for \<open>value is None\<close>; the last branch is the source's
  default for an unhandled type.
\<close>

definition column_type :: "string \<Rightarrow> pyval \<Rightarrow> string option" where
  "column_type key val =
     (if key = ''raw_data'' then Some ''JSONB''
      else if isinstance_str val then Some ''TEXT''
      else if isinstance_int val then Some ''BIGINT''
      else if isinstance_float val then Some ''DOUBLE PRECISION''
      else if isinstance_list val then
        (if list_all isinstance_str (list_items val) then Some ''TEXT[]''
         else if list_all (\<lambda>item. isinstance_int item \<or> isinstance_float item) (list_items val)
           then Some ''DOUBLE PRECISION[]''
         else Some ''JSONB'')
      else if isinstance_dict val then Some ''JSONB''
      else if val = VNone then None
      else Some ''TEXT'')"

type_synonym table_schema = "(string \<times> string) list"

definition schema_step :: "string \<times> pyval \<Rightarrow> table_schema \<Rightarrow> table_schema" where
  "schema_step kv schema =
     (case column_type (fst kv) (snd kv) of
        None \<Rightarrow> schema
      | Some t \<Rightarrow> AList.update (fst kv) t schema)"

definition determine_table_schema :: "pydict \<Rightarrow> table_schema" where
  "determine_table_schema data = fold schema_step data []"

text \<open>The record of the specification's schema-inference example.\<close>

definition example_record :: pydict where
  "example_record =
     [(''source'', VStr ''x''), (''data_type'', VStr ''y''), (''count'', VInt 3),
      (''label'', VStr ''z''), (''ratio'', VFloat 1.5),
      (''tags'', VList [VStr ''a'', VStr ''b'']), (''meta'', VDict [(''k'', VInt 1)])]"

section \<open>Library functions outside the repository\<close>

text \<open>
  Three functions of the Python libraries are used by the storage layer on arbitrary
  values and are not part of the repository; the model takes them as parameters:
  \<^item> \<open>py_format\<close>: the text an f-string produces for a value that is not a string;
  \<^item> \<open>json_dumps\<close>: \<open>json.dumps\<close>, \<open>None\<close> when it raises \<open>TypeError\<close>;
  \<^item> \<open>json_normalize\<close>: \<open>pandas.json_normalize\<close> on one record, the flattened row.
\<close>

record pylib =
  py_format :: "pyval \<Rightarrow> string"
  json_dumps :: "pyval \<Rightarrow> string option"
  json_normalize :: "pydict \<Rightarrow> pydict"

text \<open>\<open>f"{v}"\<close>: a string is inserted as it is.\<close>

definition fstring :: "pylib \<Rightarrow> pyval \<Rightarrow> string" where
  "fstring lib v = (case v of VStr s \<Rightarrow> s | _ \<Rightarrow> py_format lib v)"

text \<open>\<open>os.path.join\<close> of \<open>posixpath\<close>, for two components.\<close>

definition os_path_join :: "string \<Rightarrow> string \<Rightarrow> string" where
  "os_path_join a b =
     (if b \<noteq> [] \<and> hd b = CHR ''/'' then b
      else if a = [] \<or> last a = CHR ''/'' then a @ b
      else a @ ''/'' @ b)"

text \<open>\<open>s.replace(old, new)\<close> for a one-character \<open>old\<close>.\<close>

definition str_replace :: "char \<Rightarrow> char \<Rightarrow> string \<Rightarrow> string" where
  "str_replace old new s = map (\<lambda>c. if c = old then new else c) s"

section \<open>File and CSV sinks (class DataStorage)\<close>

text \<open>
  The exceptions that leave a sink: \<open>StorageError\<close>, raised by the sinks themselves,
  and the exceptions of the database driver and its pool, which the relational sink
  does not always catch.
\<close>

datatype py_exception = StorageError string | PoolError | DriverError string

text \<open>
  What a file holds: the JSON document of one record, or a CSV header line followed
  by rows. Appending adds chunks at the end.
\<close>

datatype chunk = JsonDoc pydict | CsvHeader "string list" | CsvRow pydict

record filesystem =
  dirs :: "string list"
  files :: "(string \<times> chunk list) list"

record data_storage =
  storage_type :: string
  data_dir :: string

text \<open>
  The operating system is outside the program: whether it raises on
  \<open>os.makedirs\<close> of a path, and on opening and writing the file at a path, is its
  verdict on that call, given to the model path by path. (It raises on a write, for
  one, when the directory that is to hold the file does not exist.)
\<close>

record os_env =
  makedirs_raises :: "string \<Rightarrow> bool"
  write_raises :: "string \<Rightarrow> bool"

text \<open>
  \<open>DataStorage._store_to_file\<close>. \<open>stamp\<close> is the formatted current UTC time.
  \<open>os.path.join\<close> raises \<open>TypeError\<close> on a component that is not a string,
  \<open>.replace\<close> raises \<open>AttributeError\<close> on an asset that is not a string, and
  \<open>json.dump\<close> raises \<open>TypeError\<close> on a value it cannot encode, after the file has
  been opened; every exception is re-raised as \<open>StorageError\<close>.
\<close>

definition store_to_file ::
  "pylib \<Rightarrow> string \<Rightarrow> os_env \<Rightarrow> data_storage \<Rightarrow> pydict \<Rightarrow> filesystem \<Rightarrow> (py_exception + unit) \<times> filesystem"
where
  "store_to_file lib stamp os st data fs =
     (let source = dict_get data ''source'' (VStr ''unknown'');
          data_type = dict_get data ''data_type'' (VStr ''general'')
      in case (source, data_type) of
           (VStr src, VStr dt) \<Rightarrow>
             (let directory = os_path_join (os_path_join (data_dir st) src) dt
              in if makedirs_raises os directory
                 then (Inl (StorageError ''Error storing data to file: OSError''), fs)
                 else
                   (let fs1 = fs\<lparr>dirs := dirs fs @ [directory]\<rparr>
                    in case dict_get data ''asset'' (VStr ''general'') of
                         VStr a \<Rightarrow>
                           (let asset = str_replace CHR '':'' CHR ''-'' (str_replace CHR ''/'' CHR ''-'' a);
                                filename = stamp @ ''_'' @ asset @ ''.json'';
                                filepath = os_path_join directory filename
                            in if write_raises os filepath
                               then (Inl (StorageError ''Error storing data to file: OSError''), fs1)
                               else case json_dumps lib (VDict data) of
                                      None \<Rightarrow> (Inl (StorageError ''Error storing data to file: TypeError''),
                                                fs1\<lparr>files := AList.update filepath [] (files fs1)\<rparr>)
                                    | Some _ \<Rightarrow> (Inr (), fs1\<lparr>files := AList.update filepath [JsonDoc data] (files fs1)\<rparr>))
                       | _ \<Rightarrow> (Inl (StorageError ''Error storing data to file: AttributeError''), fs1)))
         | _ \<Rightarrow> (Inl (StorageError ''Error storing data to file: TypeError''), fs))"

text \<open>
  \<open>DataStorage._store_to_csv\<close>. Only \<open>source\<close> goes through \<open>os.path.join\<close>
  for the directory, and only that directory is made; \<open>data_type\<close> is formatted by an
  f-string, which accepts any value.
\<close>

definition store_to_csv ::
  "pylib \<Rightarrow> os_env \<Rightarrow> data_storage \<Rightarrow> pydict \<Rightarrow> filesystem \<Rightarrow> (py_exception + unit) \<times> filesystem"
where
  "store_to_csv lib os st data fs =
     (let source = dict_get data ''source'' (VStr ''unknown'');
          data_type = dict_get data ''data_type'' (VStr ''general'')
      in case source of
           VStr src \<Rightarrow>
             (let directory = os_path_join (data_dir st) src
              in if makedirs_raises os directory
                 then (Inl (StorageError ''Error storing data to CSV: OSError''), fs)
                 else
                   (let fs1 = fs\<lparr>dirs := dirs fs @ [directory]\<rparr>;
                        filename = fstring lib data_type @ ''.csv'';
                        filepath = os_path_join directory filename;
                        df = json_normalize lib data
                    in if write_raises os filepath
                       then (Inl (StorageError ''Error storing data to CSV: OSError''), fs1)
                       else case map_of (files fs1) filepath of
                              None \<Rightarrow>
                                (Inr (), fs1\<lparr>files := AList.update filepath [CsvHeader (map fst df), CsvRow df] (files fs1)\<rparr>)
                            | Some old \<Rightarrow>
                                (Inr (), fs1\<lparr>files := AList.update filepath (old @ [CsvRow df]) (files fs1)\<rparr>)))
         | _ \<Rightarrow> (Inl (StorageError ''Error storing data to CSV: TypeError''), fs))"

text \<open>\<open>DataStorage.store_data\<close>: dispatch on the configured storage type.\<close>

definition file_store_data ::
  "pylib \<Rightarrow> string \<Rightarrow> os_env \<Rightarrow> data_storage \<Rightarrow> pydict \<Rightarrow> filesystem \<Rightarrow> (py_exception + unit) \<times> filesystem"
where
  "file_store_data lib stamp os st data fs =
     (if storage_type st = ''file'' then store_to_file lib stamp os st data fs
      else if storage_type st = ''csv'' then store_to_csv lib os st data fs
      else (Inl (StorageError (''Unsupported storage type: '' @ storage_type st)), fs))"

text \<open>
  An empty file system and an operating system that raises on no call, for evaluating
  the file sinks on concrete records.
\<close>

definition empty_fs :: filesystem where
  "empty_fs = \<lparr>dirs = [], files = []\<rparr>"

definition no_os_error :: os_env where
  "no_os_error = \<lparr>makedirs_raises = (\<lambda>path. False), write_raises = (\<lambda>path. False)\<rparr>"

section \<open>Relational sink (class PostgresDataStorage)\<close>

text \<open>
  The database as the sink sees it: the committed catalogue (table name to column
  schema) and the committed rows, the number of pooled connections checked out, and the
  trace of the calls to the pool and the driver that were carried out, oldest first.
\<close>

datatype db_event =
    GetConn
  | PutConn
  | OpenCursor
  | CloseCursor
  | CreateTableIfNotExists string table_schema
  | InsertInto string pydict
  | Commit
  | Rollback
  | LogError string

record pg_state =
  tables :: "(string \<times> table_schema) list"
  table_rows :: "(string \<times> pydict) list"
  in_use :: nat
  maxconn :: nat
  events :: "db_event list"

text \<open>The view of the open transaction on the connection a store call holds.\<close>

record conn =
  work_tables :: "(string \<times> table_schema) list"
  work_rows :: "(string \<times> pydict) list"

text \<open>
  The call sites of the driver and the pool in one store call, in the order of the
  source: \<open>getconn\<close>; in \<open>_create_table\<close> the cursor, the \<open>execute\<close>, the
  \<open>commit\<close> and the \<open>cursor.close\<close> of its \<open>finally\<close>; in \<open>store_data\<close> the
  cursor, the \<open>execute\<close> and the \<open>commit\<close> of the insert, the \<open>rollback\<close> of the
  \<open>except\<close> clause, and the \<open>cursor.close\<close> and \<open>putconn\<close> of the \<open>finally\<close>
  clause.
\<close>

datatype db_op =
    OpGetConn
  | OpCreateCursor
  | OpCreateExecute
  | OpCreateCommit
  | OpCreateClose
  | OpInsertCursor
  | OpInsertExecute
  | OpInsertCommit
  | OpRollback
  | OpClose
  | OpPutConn

text \<open>
  The engine and the driver are outside the program: whether a call raises when the
  store call reaches it (a statement the engine rejects, a connection that has dropped)
  is their verdict, given to the model call site by call site. Nothing is assumed about
  which statements the engine accepts.
\<close>

type_synonym db_env = "db_op \<Rightarrow> bool"

definition emit :: "db_event \<Rightarrow> pg_state \<Rightarrow> pg_state" where
  "emit ev s = s\<lparr>events := events s @ [ev]\<rparr>"

definition commit :: "conn \<Rightarrow> pg_state \<Rightarrow> pg_state" where
  "commit c s = emit Commit (s\<lparr>tables := work_tables c, table_rows := work_rows c\<rparr>)"

definition table_name_of :: "pylib \<Rightarrow> pyval \<Rightarrow> pyval \<Rightarrow> string" where
  "table_name_of lib source data_type = fstring lib source @ ''_'' @ fstring lib data_type"

text \<open>\<open>CREATE TABLE IF NOT EXISTS\<close>: nothing happens to a table that exists.\<close>

definition create_if_not_exists :: "string \<Rightarrow> table_schema \<Rightarrow> conn \<Rightarrow> conn" where
  "create_if_not_exists name schema c =
     (case map_of (work_tables c) name of
        Some _ \<Rightarrow> c
      | None \<Rightarrow> c\<lparr>work_tables := work_tables c @ [(name, schema)]\<rparr>)"

text \<open>
  \<open>PostgresDataStorage._create_table\<close>. The first component of the result is the
  exception that leaves the method, if any. The cursor is opened before the \<open>try\<close>;
  the \<open>finally\<close> closes it, and an exception of that \<open>cursor.close\<close> replaces
  whatever the \<open>try\<close> block raised.
\<close>

definition create_table ::
  "pylib \<Rightarrow> db_env \<Rightarrow> pyval \<Rightarrow> pyval \<Rightarrow> table_schema \<Rightarrow> pg_state \<times> conn \<Rightarrow> string option \<times> pg_state \<times> conn"
where
  "create_table lib raises source data_type schema sc =
     (let s = fst sc; c = snd sc
      in if raises OpCreateCursor then (Some ''cursor failed'', s, c)
         else
           (let s1 = emit OpenCursor s;
                table_name = table_name_of lib source data_type;
                r = (if raises OpCreateExecute then (Some ''CREATE TABLE failed'', s1, c)
                     else
                       (let s2 = emit (CreateTableIfNotExists table_name schema) s1;
                            c2 = create_if_not_exists table_name schema c
                        in if raises OpCreateCommit then (Some ''commit failed'', s2, c2)
                           else (None, commit c2 s2, c2)))
            in if raises OpCreateClose then (Some ''cursor.close failed'', fst (snd r), snd (snd r))
               else (fst r, emit CloseCursor (fst (snd r)), snd (snd r))))"

text \<open>
  The dict comprehension of \<open>store_data\<close>: null fields are dropped, nested mappings
  and lists are serialised; \<open>None\<close> when \<open>json.dumps\<close> raises.
\<close>

fun data_for_insert :: "pylib \<Rightarrow> pydict \<Rightarrow> pydict option" where
  "data_for_insert lib [] = Some []"
| "data_for_insert lib ((k, v) # d) =
     (if v = VNone then data_for_insert lib d
      else if isinstance_dict v \<or> isinstance_list v then
        (case json_dumps lib v of
           None \<Rightarrow> None
         | Some text \<Rightarrow> map_option ((#) (k, VStr text)) (data_for_insert lib d))
      else map_option ((#) (k, v)) (data_for_insert lib d))"

text \<open>
  The \<open>try\<close> block of \<open>PostgresDataStorage.store_data\<close> after \<open>_create_table\<close>:
  the result is the exception raised, if any, whether \<open>cursor\<close> was assigned, and
  the state.
\<close>

definition insert_record ::
  "pylib \<Rightarrow> db_env \<Rightarrow> string \<Rightarrow> pydict \<Rightarrow> pg_state \<times> conn \<Rightarrow> string option \<times> bool \<times> pg_state"
where
  "insert_record lib raises table_name data sc =
     (let s = fst sc; c = snd sc
      in if raises OpInsertCursor then (Some ''cursor failed'', False, s)
         else
           (let s1 = emit OpenCursor s
            in case data_for_insert lib data of
                 None \<Rightarrow> (Some ''TypeError'', True, s1)
               | Some row \<Rightarrow>
                   if raises OpInsertExecute then (Some ''INSERT failed'', True, s1)
                   else
                     (let s2 = emit (InsertInto table_name row) s1;
                          c2 = c\<lparr>work_rows := work_rows c @ [(table_name, row)]\<rparr>
                      in if raises OpInsertCommit then (Some ''commit failed'', True, s2)
                         else (None, True, commit c2 s2))))"

text \<open>
  The \<open>try\<close> block of \<open>PostgresDataStorage.store_data\<close>: the exception that
  leaves it, if any, whether \<open>cursor\<close> was assigned, and the state.
\<close>

definition store_try ::
  "pylib \<Rightarrow> db_env \<Rightarrow> pydict \<Rightarrow> pg_state \<times> conn \<Rightarrow> string option \<times> bool \<times> pg_state"
where
  "store_try lib raises data sc =
     (let source = dict_get data ''source'' (VStr ''unknown'');
          data_type = dict_get data ''data_type'' (VStr ''general'');
          table_name = table_name_of lib source data_type;
          schema = determine_table_schema data;
          created = create_table lib raises source data_type schema sc
      in case fst created of
           Some e \<Rightarrow> (Some e, False, fst (snd created))
         | None \<Rightarrow> insert_record lib raises table_name data (snd created))"

text \<open>
  The \<open>except\<close> and \<open>finally\<close> clauses of \<open>store_data\<close>. On an exception of the
  \<open>try\<close> block the \<open>except\<close> clause logs and calls \<open>conn.rollback()\<close>; if that
  call raises, its exception is what is in flight, otherwise \<open>StorageError\<close> is. The
  \<open>finally\<close> clause calls \<open>cursor.close()\<close> if a cursor was assigned and then
  \<open>putconn\<close>; an exception of either replaces the one in flight, and an exception of
  \<open>cursor.close()\<close> leaves \<open>putconn\<close> uncalled.
\<close>

definition store_handlers ::
  "db_env \<Rightarrow> string option \<times> bool \<times> pg_state \<Rightarrow> (py_exception + unit) \<times> pg_state"
where
  "store_handlers raises r =
     (let exc = fst r;
          cursor = fst (snd r);
          s1 = snd (snd r);
          handled =
            (case exc of
               None \<Rightarrow> (None, s1)
             | Some e \<Rightarrow>
                 (let s1' = emit (LogError (''Error storing data to database: '' @ e)) s1
                  in if raises OpRollback then (Some (DriverError ''rollback failed''), s1')
                     else (Some (StorageError (''Database error: '' @ e)), emit Rollback s1')));
          in_flight = fst handled;
          s2 = snd handled
      in if cursor \<and> raises OpClose then (Inl (DriverError ''cursor.close failed''), s2)
         else
           (let s3 = (if cursor then emit CloseCursor s2 else s2)
            in if raises OpPutConn then (Inl (DriverError ''putconn failed''), s3)
               else (case in_flight of None \<Rightarrow> Inr () | Some x \<Rightarrow> Inl x,
                     emit PutConn (s3\<lparr>in_use := in_use s3 - 1\<rparr>))))"

text \<open>
  \<open>PostgresDataStorage.store_data\<close>. \<open>getconn\<close> is called before the \<open>try\<close>: the
  pool raises \<open>PoolError\<close> when every connection is checked out, the driver may raise
  when the pool has to connect, and either exception reaches the caller as it is.
\<close>

definition pg_store_data ::
  "pylib \<Rightarrow> db_env \<Rightarrow> pydict \<Rightarrow> pg_state \<Rightarrow> (py_exception + unit) \<times> pg_state"
where
  "pg_store_data lib raises data s =
     (if maxconn s \<le> in_use s then (Inl PoolError, s)
      else if raises OpGetConn then (Inl (DriverError ''getconn failed''), s)
      else
        (let s0 = emit GetConn (s\<lparr>in_use := Suc (in_use s)\<rparr>);
             c0 = \<lparr>work_tables = tables s, work_rows = table_rows s\<rparr>
         in store_handlers raises (store_try lib raises data (s0, c0))))"

text \<open>A sequence of store calls, each with its own environment; the results are collected.\<close>

fun pg_store_all ::
  "pylib \<Rightarrow> (db_env \<times> pydict) list \<Rightarrow> pg_state \<Rightarrow> (py_exception + unit) list \<times> pg_state"
where
  "pg_store_all lib [] s = ([], s)"
| "pg_store_all lib ((raises, data) # rest) s =
     (let r = pg_store_data lib raises data s;
          rs = pg_store_all lib rest (snd r)
      in (fst r # fst rs, snd rs))"

text \<open>
  Stand-ins for the library functions, a fresh database with a pool of ten
  connections, and four environments, for evaluating the sink on concrete records: no
  call raises; the engine rejects the \<open>INSERT\<close>; the connection drops before the
  \<open>INSERT\<close>, so that every later call on it raises (\<open>cursor.close\<close> and
  \<open>putconn\<close> do not touch the server); and \<open>cursor.close\<close> raises after a
  rejected \<open>INSERT\<close>.
\<close>

definition example_lib :: pylib where
  "example_lib =
     \<lparr>py_format = (\<lambda>v. ''object''), json_dumps = (\<lambda>v. Some ''[]''), json_normalize = (\<lambda>d. d)\<rparr>"

definition empty_db :: pg_state where
  "empty_db = \<lparr>tables = [], table_rows = [], in_use = 0, maxconn = 10, events = []\<rparr>"

definition no_db_error :: db_env where
  "no_db_error op = False"

definition insert_rejected :: db_env where
  "insert_rejected op = (op = OpInsertExecute)"

definition connection_dropped :: db_env where
  "connection_dropped op = (op = OpInsertExecute \<or> op = OpInsertCommit \<or> op = OpRollback)"

definition close_raises :: db_env where
  "close_raises op = (op = OpInsertExecute \<or> op = OpClose)"

section \<open>Collection loop (class BaseDataCollector)\<close>

text \<open>
  What \<open>collect_data\<close> hands back: nothing, one record, or a list of records; or it
  raises an \<open>Exception\<close> with a message.
\<close>

datatype collected = CNone | COne pydict | CMany "pydict list"

datatype collect_outcome = Returned collected | Raised string

text \<open>Python truthiness of the returned value (\<open>if data:\<close>).\<close>

fun truthy :: "collected \<Rightarrow> bool" where
  "truthy CNone = False"
| "truthy (COne d) = (d \<noteq> [])"
| "truthy (CMany items) = (items \<noteq> [])"

text \<open>
  What the world outside the loop does during one cycle: how the production call ends
  and how long it takes on the monotonic clock, and whether another thread calls
  \<open>stop\<close> while the loop is between its check of the flag and its sleep, or while it
  sleeps.
\<close>

record cycle_env =
  outcome :: collect_outcome
  duration :: real
  stop_during_collect :: bool
  stop_during_sleep :: bool

record collector =
  cls_name :: string
  running :: bool
  interval :: real
  last_collection_time :: real
  clock :: real
  data_queue :: "pydict list"
  error_log :: "string list"
  slept :: "real list"

text \<open>\<open>BaseDataCollector.stop\<close>\<close>

definition stop :: "collector \<Rightarrow> collector" where
  "stop s = s\<lparr>running := False\<rparr>"

text \<open>The \<open>try\<close>/\<open>except\<close> statement of the loop body.\<close>

definition collect_phase :: "cycle_env \<Rightarrow> collector \<Rightarrow> collector" where
  "collect_phase env s =
     (let s1 = s\<lparr>clock := clock s + duration env\<rparr>;
          s2 = (if stop_during_collect env then stop s1 else s1)
      in case outcome env of
           Returned data \<Rightarrow>
             (if truthy data then
                (case data of
                   CMany items \<Rightarrow> s2\<lparr>data_queue := data_queue s2 @ items\<rparr>
                 | COne d \<Rightarrow> s2\<lparr>data_queue := data_queue s2 @ [d]\<rparr>
                 | CNone \<Rightarrow> s2)
              else s2)
         | Raised e \<Rightarrow>
             s2\<lparr>error_log := error_log s2 @ [cls_name s2 @ '' encountered an error: '' @ e]\<rparr>)"

text \<open>
  \<open>BaseDataCollector._sleep_until_next_interval\<close>; the argument of \<open>time.sleep\<close>
  is recorded in \<open>slept\<close>.
\<close>

definition sleep_until_next_interval :: "cycle_env \<Rightarrow> collector \<Rightarrow> collector" where
  "sleep_until_next_interval env s =
     (let elapsed_time = clock s - last_collection_time s;
          sleep_time = max 0 (interval s - elapsed_time);
          s1 = s\<lparr>slept := slept s @ [sleep_time], clock := clock s + sleep_time\<rparr>
      in if stop_during_sleep env then stop s1 else s1)"

text \<open>One pass through the body of \<open>while self.running\<close>.\<close>

definition cycle :: "cycle_env \<Rightarrow> collector \<Rightarrow> collector" where
  "cycle env s =
     (let s1 = sleep_until_next_interval env (collect_phase env s)
      in s1\<lparr>last_collection_time := clock s1\<rparr>)"

text \<open>
  The \<open>while\<close> loop, observed for as many cycles as the schedule describes: the flag
  is read once, at the top of each cycle.
\<close>

fun run_loop :: "cycle_env list \<Rightarrow> collector \<Rightarrow> collector" where
  "run_loop [] s = s"
| "run_loop (env # envs) s = (if running s then run_loop envs (cycle env s) else s)"

text \<open>\<open>BaseDataCollector.run\<close>\<close>

definition run :: "cycle_env list \<Rightarrow> collector \<Rightarrow> collector" where
  "run envs s = run_loop envs (s\<lparr>running := True, last_collection_time := clock s\<rparr>)"

section \<open>Drain worker (DataCollectorAgent._process_data)\<close>

text \<open>
  \<open>now\<close> is the ISO-8601 text of the capture time; \<open>store\<close> is the \<open>store_data\<close>
  of the configured sink, on the sink's state. The result is the sink's state, the
  record the sink was called with, and the error logged if the sink raised.
\<close>

definition process_data ::
  "string \<Rightarrow> (pydict \<Rightarrow> 's \<Rightarrow> (py_exception + unit) \<times> 's) \<Rightarrow> pydict \<Rightarrow> 's \<Rightarrow> 's \<times> pydict \<times> string list"
where
  "process_data now store data st =
     (let data1 = (if map_of data ''timestamp'' = None
                   then AList.update ''timestamp'' (VStr now) data
                   else data);
          r = store data1 st
      in (snd r, data1,
          (case fst r of Inl e \<Rightarrow> [''Error in data processing''] | Inr _ \<Rightarrow> [])))"

section \<open>CAPTCHA solver (core/utils.py)\<close>

text \<open>
  The answer of the AntiCaptcha client's \<open>solve_and_return_solution\<close>: a token, the
  number 0 it returns when the service reports an error, or an exception.
\<close>

datatype solver_outcome = Token string | NoSolution | SolverRaises string

datatype captcha_error = CaptchaError string

text \<open>
  \<open>solve_captcha(site_key, url, api_key)\<close>; the key comes from the configuration and
  may be absent. \<open>solver\<close> is the external service, asked with the key, the page and
  the site key.
\<close>

definition solve_captcha ::
  "(string \<Rightarrow> string \<Rightarrow> string \<Rightarrow> solver_outcome) \<Rightarrow> string \<Rightarrow> string \<Rightarrow> string option \<Rightarrow> captcha_error + string"
where
  "solve_captcha solver site_key url api_key =
     (case api_key of
        None \<Rightarrow> Inr ''''
      | Some key \<Rightarrow>
          if key = [] then Inr ''''
          else
            (case solver key url site_key of
               Token token \<Rightarrow> if token \<noteq> [] then Inr token else Inr ''''
             | NoSolution \<Rightarrow> Inr ''''
             | SolverRaises e \<Rightarrow> Inl (CaptchaError (''Error solving CAPTCHA: '' @ e))))"

text \<open>
  \<open>DataCollectorAgent.solve_captcha(site_key, url)\<close>, the function handed to the
  collectors: the agent supplies its configured key.
\<close>

definition agent_solve_captcha ::
  "(string \<Rightarrow> string \<Rightarrow> string \<Rightarrow> solver_outcome) \<Rightarrow> string option \<Rightarrow> string \<Rightarrow> string \<Rightarrow> captcha_error + string"
where
  "agent_solve_captcha solver captcha_api_key site_key url =
     solve_captcha solver site_key url captcha_api_key"

text \<open>
  A sink that only records what it is called with, and a solver service that raises,
  for evaluating the drain worker and the solver function on concrete inputs.
\<close>

definition recording_sink :: "pydict \<Rightarrow> pydict list \<Rightarrow> (py_exception + unit) \<times> pydict list" where
  "recording_sink r calls = (Inr (), calls @ [r])"

definition failing_solver :: "string \<Rightarrow> string \<Rightarrow> string \<Rightarrow> solver_outcome" where
  "failing_solver key url site_key = SolverRaises ''connection reset''"

section \<open>Schema inference: lemmas\<close>

lemma map_of_fold_schema_step:
  "distinct (map fst data) \<Longrightarrow>
   map_of (fold schema_step data acc) k =
     (case map_of data k of
        None \<Rightarrow> map_of acc k
      | Some v \<Rightarrow> (case column_type k v of None \<Rightarrow> map_of acc k | Some t \<Rightarrow> Some t))"
proof (induction data arbitrary: acc)
  case Nil
  show ?case by simp
next
  case (Cons kv data)
  obtain k' v' where kv: "kv = (k', v')" by (cases kv)
  from Cons.prems kv have fresh: "map_of data k' = None" and dist: "distinct (map fst data)"
    by (auto simp: map_of_eq_None_iff)
  have step: "map_of (schema_step (k', v') acc) j =
      (if j = k' then (case column_type k' v' of None \<Rightarrow> map_of acc j | Some t \<Rightarrow> Some t)
       else map_of acc j)" for j
    by (simp add: schema_step_def update_conv' split: option.splits)
  have "map_of (fold schema_step (kv # data) acc) k =
      (case map_of data k of
         None \<Rightarrow> map_of (schema_step kv acc) k
       | Some v \<Rightarrow> (case column_type k v of
                     None \<Rightarrow> map_of (schema_step kv acc) k | Some t \<Rightarrow> Some t))"
    using Cons.IH [OF dist, of "schema_step kv acc"] by simp
  also have "\<dots> =
      (case map_of (kv # data) k of
         None \<Rightarrow> map_of acc k
       | Some v \<Rightarrow> (case column_type k v of None \<Rightarrow> map_of acc k | Some t \<Rightarrow> Some t))"
    using fresh by (cases "k = k'") (simp_all add: step kv split: option.splits)
  finally show ?case .
qed

lemma map_of_determine_table_schema:
  "distinct (map fst data) \<Longrightarrow>
   map_of (determine_table_schema data) k =
     (case map_of data k of None \<Rightarrow> None | Some v \<Rightarrow> column_type k v)"
  by (simp add: determine_table_schema_def map_of_fold_schema_step split: option.splits)

lemma determine_table_schema_example:
  "determine_table_schema example_record =
     [(''source'', ''TEXT''), (''data_type'', ''TEXT''), (''count'', ''BIGINT''),
      (''label'', ''TEXT''), (''ratio'', ''DOUBLE PRECISION''), (''tags'', ''TEXT[]''),
      (''meta'', ''JSONB'')]"
  by (simp add: determine_table_schema_def example_record_def schema_step_def column_type_def)
section \<open>Collection loop: lemmas\<close>

lemma interval_cycle: "interval (cycle env s) = interval s"
  by (simp add: cycle_def sleep_until_next_interval_def collect_phase_def stop_def Let_def
      split: collect_outcome.splits collected.splits)

lemma cls_name_cycle: "cls_name (cycle env s) = cls_name s"
  by (simp add: cycle_def sleep_until_next_interval_def collect_phase_def stop_def Let_def
      split: collect_outcome.splits collected.splits)

lemma clock_collect_phase: "clock (collect_phase env s) = clock s + duration env"
  by (simp add: collect_phase_def stop_def Let_def split: collect_outcome.splits collected.splits)

lemma last_collection_time_collect_phase:
  "last_collection_time (collect_phase env s) = last_collection_time s"
  by (simp add: collect_phase_def stop_def Let_def split: collect_outcome.splits collected.splits)

lemma interval_collect_phase: "interval (collect_phase env s) = interval s"
  by (simp add: collect_phase_def stop_def Let_def split: collect_outcome.splits collected.splits)

lemma slept_collect_phase: "slept (collect_phase env s) = slept s"
  by (simp add: collect_phase_def stop_def Let_def split: collect_outcome.splits collected.splits)

lemma running_collect_phase:
  "running (collect_phase env s) = (running s \<and> \<not> stop_during_collect env)"
  by (simp add: collect_phase_def stop_def Let_def split: collect_outcome.splits collected.splits)

lemma error_log_collect_phase:
  "error_log (collect_phase env s) =
     (case outcome env of
        Returned data \<Rightarrow> error_log s
      | Raised e \<Rightarrow> error_log s @ [cls_name s @ '' encountered an error: '' @ e])"
  by (simp add: collect_phase_def stop_def Let_def split: collect_outcome.splits collected.splits)

lemma slept_cycle:
  "slept (cycle env s) =
     slept s @ [max 0 (interval s - (clock s + duration env - last_collection_time s))]"
  by (simp add: cycle_def sleep_until_next_interval_def stop_def Let_def clock_collect_phase
      last_collection_time_collect_phase interval_collect_phase slept_collect_phase)

lemma clock_cycle:
  "clock (cycle env s) =
     clock s + duration env + max 0 (interval s - (clock s + duration env - last_collection_time s))"
  by (simp add: cycle_def sleep_until_next_interval_def stop_def Let_def clock_collect_phase
      last_collection_time_collect_phase interval_collect_phase)

lemma last_collection_time_cycle: "last_collection_time (cycle env s) = clock (cycle env s)"
  by (simp add: cycle_def sleep_until_next_interval_def stop_def Let_def)

lemma running_cycle:
  "running (cycle env s) = (running s \<and> \<not> stop_during_collect env \<and> \<not> stop_during_sleep env)"
  by (simp add: cycle_def sleep_until_next_interval_def stop_def Let_def running_collect_phase)

lemma error_log_cycle: "error_log (cycle env s) = error_log (collect_phase env s)"
  by (simp add: cycle_def sleep_until_next_interval_def stop_def Let_def)

lemma run_loop_not_running: "\<not> running s \<Longrightarrow> run_loop envs s = s"
  by (cases envs) simp_all

lemma run_loop_exact:
  "last_collection_time s = clock s \<Longrightarrow> running s \<Longrightarrow>
   slept (run_loop envs s) =
     slept s @ map (\<lambda>env. max 0 (interval s - duration env))
       (take (Suc (length (takeWhile (\<lambda>env. \<not> stop_during_collect env \<and> \<not> stop_during_sleep env) envs))) envs) \<and>
   clock (run_loop envs s) =
     clock s + sum_list (map (\<lambda>env. duration env + max 0 (interval s - duration env))
       (take (Suc (length (takeWhile (\<lambda>env. \<not> stop_during_collect env \<and> \<not> stop_during_sleep env) envs))) envs))"
proof (induction envs arbitrary: s)
  case Nil
  show ?case by simp
next
  case (Cons env envs)
  have inv: "last_collection_time (cycle env s) = clock (cycle env s)"
    by (rule last_collection_time_cycle)
  have step: "run_loop (env # envs) s = run_loop envs (cycle env s)"
    using Cons.prems(2) by simp
  have sl: "slept (cycle env s) = slept s @ [max 0 (interval s - duration env)]"
    using Cons.prems(1) by (simp add: slept_cycle)
  have cl: "clock (cycle env s) = clock s + (duration env + max 0 (interval s - duration env))"
    using Cons.prems(1) by (simp add: clock_cycle)
  show ?case
  proof (cases "\<not> stop_during_collect env \<and> \<not> stop_during_sleep env")
    case True
    then have r: "running (cycle env s)"
      using Cons.prems(2) by (simp add: running_cycle)
    from Cons.IH [OF inv r] True show ?thesis
      unfolding step by (simp add: interval_cycle sl cl)
  next
    case False
    then have "\<not> running (cycle env s)"
      by (auto simp: running_cycle)
    then have "run_loop envs (cycle env s) = cycle env s"
      by (rule run_loop_not_running)
    with False show ?thesis
      unfolding step by (auto simp: sl cl)
  qed
qed

lemma run_loop_all_fail:
  "running s \<Longrightarrow>
   \<forall>env\<in>set envs. (\<exists>e. outcome env = Raised e) \<and> \<not> stop_during_collect env \<and> \<not> stop_during_sleep env \<Longrightarrow>
   running (run_loop envs s) \<and>
   length (error_log (run_loop envs s)) = length (error_log s) + length envs \<and>
   length (slept (run_loop envs s)) = length (slept s) + length envs"
proof (induction envs arbitrary: s)
  case Nil
  then show ?case by simp
next
  case (Cons env envs)
  from Cons.prems obtain e where e: "outcome env = Raised e"
    and ns: "\<not> stop_during_collect env" "\<not> stop_during_sleep env"
    by auto
  have r: "running (cycle env s)"
    using Cons.prems(1) ns by (simp add: running_cycle)
  have rest: "\<forall>env\<in>set envs. (\<exists>e. outcome env = Raised e) \<and> \<not> stop_during_collect env \<and> \<not> stop_during_sleep env"
    using Cons.prems(2) by simp
  have el: "length (error_log (cycle env s)) = Suc (length (error_log s))"
    by (simp add: error_log_cycle error_log_collect_phase e)
  have sl: "length (slept (cycle env s)) = Suc (length (slept s))"
    by (simp add: slept_cycle)
  from Cons.IH [OF r rest] Cons.prems(1) el sl show ?case
    by simp
qed

section \<open>Relational sink: lemmas\<close>

lemma work_rows_create_if_not_exists:
  "work_rows (create_if_not_exists n sch c) = work_rows c"
  by (simp add: create_if_not_exists_def split: option.splits)

lemma map_of_create_if_not_exists:
  "map_of (work_tables (create_if_not_exists n sch c)) t =
     (if t = n \<and> map_of (work_tables c) n = None then Some sch else map_of (work_tables c) t)"
  by (auto simp: create_if_not_exists_def map_add_def split: option.splits)

text \<open>What one call of \<open>_create_table\<close> does, by the verdicts of the environment.\<close>

lemma create_table_result:
  "create_table lib raises source data_type schema (s, c) =
     (if raises OpCreateCursor then (Some ''cursor failed'', s, c)
      else if raises OpCreateExecute then
        (if raises OpCreateClose
         then (Some ''cursor.close failed'', s\<lparr>events := events s @ [OpenCursor]\<rparr>, c)
         else (Some ''CREATE TABLE failed'', s\<lparr>events := events s @ [OpenCursor, CloseCursor]\<rparr>, c))
      else if raises OpCreateCommit then
        (if raises OpCreateClose
         then (Some ''cursor.close failed'',
               s\<lparr>events := events s @
                  [OpenCursor, CreateTableIfNotExists (table_name_of lib source data_type) schema]\<rparr>,
               create_if_not_exists (table_name_of lib source data_type) schema c)
         else (Some ''commit failed'',
               s\<lparr>events := events s @
                  [OpenCursor, CreateTableIfNotExists (table_name_of lib source data_type) schema,
                   CloseCursor]\<rparr>,
               create_if_not_exists (table_name_of lib source data_type) schema c))
      else
        (if raises OpCreateClose then Some ''cursor.close failed'' else None,
         s\<lparr>tables := work_tables (create_if_not_exists (table_name_of lib source data_type) schema c),
           table_rows := work_rows c,
           events := events s @
              [OpenCursor, CreateTableIfNotExists (table_name_of lib source data_type) schema, Commit] @
              (if raises OpCreateClose then [] else [CloseCursor])\<rparr>,
         create_if_not_exists (table_name_of lib source data_type) schema c))"
  by (simp add: create_table_def commit_def emit_def Let_def work_rows_create_if_not_exists)

lemma insert_record_result:
  "insert_record lib raises table_name data (s, c) =
     (if raises OpInsertCursor then (Some ''cursor failed'', False, s)
      else case data_for_insert lib data of
             None \<Rightarrow> (Some ''TypeError'', True, s\<lparr>events := events s @ [OpenCursor]\<rparr>)
           | Some row \<Rightarrow>
               if raises OpInsertExecute
               then (Some ''INSERT failed'', True, s\<lparr>events := events s @ [OpenCursor]\<rparr>)
               else if raises OpInsertCommit
               then (Some ''commit failed'', True,
                     s\<lparr>events := events s @ [OpenCursor, InsertInto table_name row]\<rparr>)
               else (None, True,
                     s\<lparr>tables := work_tables c,
                       table_rows := work_rows c @ [(table_name, row)],
                       events := events s @ [OpenCursor, InsertInto table_name row, Commit]\<rparr>))"
  by (simp add: insert_record_def commit_def emit_def Let_def split: option.splits)

lemma store_handlers_result:
  "store_handlers raises (exc, cursor, s1) =
     (if cursor \<and> raises OpClose then
        (Inl (DriverError ''cursor.close failed''),
         s1\<lparr>events := events s1 @
            (case exc of None \<Rightarrow> []
             | Some e \<Rightarrow> LogError (''Error storing data to database: '' @ e) #
                          (if raises OpRollback then [] else [Rollback]))\<rparr>)
      else if raises OpPutConn then
        (Inl (DriverError ''putconn failed''),
         s1\<lparr>events := events s1 @
            (case exc of None \<Rightarrow> []
             | Some e \<Rightarrow> LogError (''Error storing data to database: '' @ e) #
                          (if raises OpRollback then [] else [Rollback])) @
            (if cursor then [CloseCursor] else [])\<rparr>)
      else
        (case exc of
           None \<Rightarrow> Inr ()
         | Some e \<Rightarrow> if raises OpRollback then Inl (DriverError ''rollback failed'')
                      else Inl (StorageError (''Database error: '' @ e)),
         s1\<lparr>in_use := in_use s1 - 1,
            events := events s1 @
              (case exc of None \<Rightarrow> []
               | Some e \<Rightarrow> LogError (''Error storing data to database: '' @ e) #
                            (if raises OpRollback then [] else [Rollback])) @
              (if cursor then [CloseCursor] else []) @ [PutConn]\<rparr>))"
  by (simp add: store_handlers_def emit_def Let_def split: option.splits)

lemmas pg_results =
  pg_store_data_def store_try_def create_table_result insert_record_result store_handlers_result
  Let_def emit_def

text \<open>The stages of a store call, one at a time.\<close>

lemma create_table_props:
  "in_use (fst (snd (create_table lib raises source data_type schema (s, c)))) = in_use s \<and>
   maxconn (fst (snd (create_table lib raises source data_type schema (s, c)))) = maxconn s \<and>
   count_list (events (fst (snd (create_table lib raises source data_type schema (s, c))))) Rollback
     = count_list (events s) Rollback \<and>
   (table_rows (fst (snd (create_table lib raises source data_type schema (s, c)))) = table_rows s \<or>
    table_rows (fst (snd (create_table lib raises source data_type schema (s, c)))) = work_rows c) \<and>
   (tables (fst (snd (create_table lib raises source data_type schema (s, c)))) = tables s \<or>
    tables (fst (snd (create_table lib raises source data_type schema (s, c)))) =
      work_tables (create_if_not_exists (table_name_of lib source data_type) schema c)) \<and>
   work_rows (snd (snd (create_table lib raises source data_type schema (s, c)))) = work_rows c \<and>
   (work_tables (snd (snd (create_table lib raises source data_type schema (s, c)))) = work_tables c \<or>
    work_tables (snd (snd (create_table lib raises source data_type schema (s, c)))) =
      work_tables (create_if_not_exists (table_name_of lib source data_type) schema c))"
  by (simp add: create_table_result work_rows_create_if_not_exists)

lemma create_table_success:
  "fst (create_table lib raises source data_type schema (s, c)) = None \<Longrightarrow>
   tables (fst (snd (create_table lib raises source data_type schema (s, c)))) =
     work_tables (snd (snd (create_table lib raises source data_type schema (s, c))))"
  by (simp add: create_table_result split: if_splits)

lemma create_table_statement:
  "\<not> raises OpCreateCursor \<Longrightarrow> \<not> raises OpCreateExecute \<Longrightarrow>
   \<exists>xs ys. events (fst (snd (create_table lib raises source data_type schema (s, c)))) =
     events s @ xs @ CreateTableIfNotExists (table_name_of lib source data_type) schema # ys"
proof -
  assume a: "\<not> raises OpCreateCursor" "\<not> raises OpCreateExecute"
  have "\<exists>ys. events (fst (snd (create_table lib raises source data_type schema (s, c)))) =
     events s @ [OpenCursor] @ CreateTableIfNotExists (table_name_of lib source data_type) schema # ys"
    using a by (simp add: create_table_result)
  then show ?thesis by blast
qed

lemma insert_record_props:
  "in_use (snd (snd (insert_record lib raises table_name data (s, c)))) = in_use s \<and>
   count_list (events (snd (snd (insert_record lib raises table_name data (s, c))))) Rollback
     = count_list (events s) Rollback \<and>
   (fst (insert_record lib raises table_name data (s, c)) \<noteq> None \<longrightarrow>
      table_rows (snd (snd (insert_record lib raises table_name data (s, c)))) = table_rows s) \<and>
   (tables (snd (snd (insert_record lib raises table_name data (s, c)))) = tables s \<or>
    tables (snd (snd (insert_record lib raises table_name data (s, c)))) = work_tables c) \<and>
   (\<exists>zs. events (snd (snd (insert_record lib raises table_name data (s, c)))) = events s @ zs)"
  by (simp add: insert_record_result split: option.splits)

lemma store_try_props:
  assumes "work_rows c = table_rows s"
  shows "in_use (snd (snd (store_try lib raises data (s, c)))) = in_use s \<and>
   count_list (events (snd (snd (store_try lib raises data (s, c))))) Rollback
     = count_list (events s) Rollback \<and>
   (fst (store_try lib raises data (s, c)) \<noteq> None \<longrightarrow>
      table_rows (snd (snd (store_try lib raises data (s, c)))) = table_rows s) \<and>
   (tables (snd (snd (store_try lib raises data (s, c)))) = tables s \<or>
    tables (snd (snd (store_try lib raises data (s, c)))) =
      work_tables (create_if_not_exists
        (table_name_of lib (dict_get data ''source'' (VStr ''unknown''))
           (dict_get data ''data_type'' (VStr ''general'')))
        (determine_table_schema data) c))"
proof -
  let ?src = "dict_get data ''source'' (VStr ''unknown'')"
  let ?dt = "dict_get data ''data_type'' (VStr ''general'')"
  let ?cr = "create_table lib raises ?src ?dt (determine_table_schema data) (s, c)"
  obtain exc s1 c1 where cr: "?cr = (exc, s1, c1)" by (cases ?cr)
  note cp = create_table_props [of lib raises ?src ?dt "determine_table_schema data" s c, unfolded cr]
  show ?thesis
  proof (cases exc)
    case (Some e)
    then have "store_try lib raises data (s, c) = (Some e, False, s1)"
      by (simp add: store_try_def cr)
    with cp assms show ?thesis by auto
  next
    case None
    then have st: "store_try lib raises data (s, c) =
        insert_record lib raises (table_name_of lib ?src ?dt) data (s1, c1)"
      by (simp add: store_try_def cr)
    from create_table_success [of lib raises ?src ?dt "determine_table_schema data" s c] None
    have tw: "tables s1 = work_tables c1" by (simp add: cr)
    note ip = insert_record_props [of lib raises "table_name_of lib ?src ?dt" data s1 c1]
    from cp assms ip tw show ?thesis
      unfolding st by auto
  qed
qed

lemma store_try_statement:
  assumes "\<not> raises OpCreateCursor" and "\<not> raises OpCreateExecute"
  shows "CreateTableIfNotExists
     (table_name_of lib (dict_get data ''source'' (VStr ''unknown'')) (dict_get data ''data_type'' (VStr ''general'')))
     (determine_table_schema data)
     \<in> set (drop (length (events s)) (events (snd (snd (store_try lib raises data (s, c))))))"
proof -
  let ?src = "dict_get data ''source'' (VStr ''unknown'')"
  let ?dt = "dict_get data ''data_type'' (VStr ''general'')"
  let ?cr = "create_table lib raises ?src ?dt (determine_table_schema data) (s, c)"
  obtain exc s1 c1 where cr: "?cr = (exc, s1, c1)" by (cases ?cr)
  from create_table_statement [OF assms, of lib ?src ?dt "determine_table_schema data" s c]
  obtain xs ys where ev: "events s1 =
      events s @ xs @ CreateTableIfNotExists (table_name_of lib ?src ?dt) (determine_table_schema data) # ys"
    by (auto simp: cr)
  have "\<exists>zs. events (snd (snd (store_try lib raises data (s, c)))) = events s1 @ zs"
  proof (cases exc)
    case (Some e)
    then show ?thesis by (simp add: store_try_def cr)
  next
    case None
    with insert_record_props [of lib raises "table_name_of lib ?src ?dt" data s1 c1]
    show ?thesis by (simp add: store_try_def cr)
  qed
  then obtain zs where "events (snd (snd (store_try lib raises data (s, c)))) = events s1 @ zs" ..
  with ev show ?thesis by simp
qed

lemma store_handlers_props:
  "tables (snd (store_handlers raises (exc, cursor, s1))) = tables s1 \<and>
   table_rows (snd (store_handlers raises (exc, cursor, s1))) = table_rows s1 \<and>
   (\<exists>zs. events (snd (store_handlers raises (exc, cursor, s1))) = events s1 @ zs)"
  by (simp add: store_handlers_result)

lemma store_handlers_ok:
  assumes "\<not> raises OpRollback" and "\<not> raises OpClose" and "\<not> raises OpPutConn"
  shows "in_use (snd (store_handlers raises (exc, cursor, s1))) = in_use s1 - 1 \<and>
   last (events (snd (store_handlers raises (exc, cursor, s1)))) = PutConn \<and>
   (exc = None \<longrightarrow>
      fst (store_handlers raises (exc, cursor, s1)) = Inr () \<and>
      count_list (events (snd (store_handlers raises (exc, cursor, s1)))) Rollback
        = count_list (events s1) Rollback) \<and>
   (\<forall>e. exc = Some e \<longrightarrow>
      fst (store_handlers raises (exc, cursor, s1)) = Inl (StorageError (''Database error: '' @ e)) \<and>
      (take 2 (rev (events (snd (store_handlers raises (exc, cursor, s1))))) = [PutConn, Rollback] \<or>
       take 3 (rev (events (snd (store_handlers raises (exc, cursor, s1))))) = [PutConn, CloseCursor, Rollback]))"
  using assms by (simp add: store_handlers_result)

lemma pg_store_data_unfold:
  "in_use s < maxconn s \<Longrightarrow> \<not> raises OpGetConn \<Longrightarrow>
   pg_store_data lib raises data s =
     store_handlers raises
       (store_try lib raises data
          (s\<lparr>in_use := Suc (in_use s), events := events s @ [GetConn]\<rparr>,
           \<lparr>work_tables = tables s, work_rows = table_rows s\<rparr>))"
  by (simp add: pg_store_data_def emit_def)

lemma tables_pg_store_data:
  "tables (snd (pg_store_data lib raises data s)) = tables s \<or>
   tables (snd (pg_store_data lib raises data s)) =
     work_tables (create_if_not_exists
       (table_name_of lib (dict_get data ''source'' (VStr ''unknown''))
          (dict_get data ''data_type'' (VStr ''general'')))
       (determine_table_schema data)
       \<lparr>work_tables = tables s, work_rows = table_rows s\<rparr>)"
proof (cases "in_use s < maxconn s \<and> \<not> raises OpGetConn")
  case False
  then show ?thesis by (auto simp: pg_store_data_def)
next
  case True
  let ?s0 = "s\<lparr>in_use := Suc (in_use s), events := events s @ [GetConn]\<rparr>"
  let ?c0 = "\<lparr>work_tables = tables s, work_rows = table_rows s\<rparr>"
  obtain exc cursor s1 where st: "store_try lib raises data (?s0, ?c0) = (exc, cursor, s1)"
    by (cases "store_try lib raises data (?s0, ?c0)")
  have "work_rows ?c0 = table_rows ?s0" by simp
  from store_try_props [OF this, of lib raises data] store_handlers_props [of raises exc cursor s1]
  show ?thesis
    using True by (auto simp: pg_store_data_unfold st)
qed

lemma inference_every_call:
  assumes "in_use s < maxconn s" and "\<not> raises OpGetConn" and "\<not> raises OpCreateCursor"
    and "\<not> raises OpCreateExecute"
  shows "CreateTableIfNotExists
     (table_name_of lib (dict_get data ''source'' (VStr ''unknown'')) (dict_get data ''data_type'' (VStr ''general'')))
     (determine_table_schema data)
     \<in> set (drop (length (events s)) (events (snd (pg_store_data lib raises data s))))"
proof -
  let ?s0 = "s\<lparr>in_use := Suc (in_use s), events := events s @ [GetConn]\<rparr>"
  let ?c0 = "\<lparr>work_tables = tables s, work_rows = table_rows s\<rparr>"
  obtain exc cursor s1 where st: "store_try lib raises data (?s0, ?c0) = (exc, cursor, s1)"
    by (cases "store_try lib raises data (?s0, ?c0)")
  from store_try_statement [OF assms(3,4), of lib data ?s0 ?c0]
  have "CreateTableIfNotExists
     (table_name_of lib (dict_get data ''source'' (VStr ''unknown'')) (dict_get data ''data_type'' (VStr ''general'')))
     (determine_table_schema data) \<in> set (drop (Suc (length (events s))) (events s1))"
    by (simp add: st)
  with set_drop_subset_set_drop [of "length (events s)" "Suc (length (events s))" "events s1"]
  have inner: "CreateTableIfNotExists
     (table_name_of lib (dict_get data ''source'' (VStr ''unknown'')) (dict_get data ''data_type'' (VStr ''general'')))
     (determine_table_schema data) \<in> set (drop (length (events s)) (events s1))"
    by auto
  from store_handlers_props [of raises exc cursor s1]
  obtain zs where "events (snd (store_handlers raises (exc, cursor, s1))) = events s1 @ zs"
    by blast
  with inner show ?thesis
    using assms(1,2) by (simp add: pg_store_data_unfold st)
qed

lemma tables_first_wins:
  "map_of (tables (snd (pg_store_data lib raises data s))) t = map_of (tables s) t \<or>
   (t = table_name_of lib (dict_get data ''source'' (VStr ''unknown'')) (dict_get data ''data_type'' (VStr ''general'')) \<and>
    map_of (tables s) t = None \<and>
    map_of (tables (snd (pg_store_data lib raises data s))) t = Some (determine_table_schema data))"
  using tables_pg_store_data [of lib raises data s]
  by (auto simp: map_of_create_if_not_exists split: if_splits)

lemma tables_fixed:
  "map_of (tables s) t = Some schema \<Longrightarrow>
   map_of (tables (snd (pg_store_data lib raises data s))) t = Some schema"
  using tables_first_wins [of lib raises data s t] by auto

lemma tables_fixed_all:
  "map_of (tables s) t = Some schema \<Longrightarrow>
   map_of (tables (snd (pg_store_all lib calls s))) t = Some schema"
proof (induction calls arbitrary: s)
  case Nil
  then show ?case by simp
next
  case (Cons call calls)
  obtain raises data where call: "call = (raises, data)" by (cases call)
  from Cons.prems have "map_of (tables (snd (pg_store_data lib raises data s))) t = Some schema"
    by (rule tables_fixed)
  from Cons.IH [OF this] show ?case
    by (simp add: call Let_def)
qed

text \<open>
  Where the handlers themselves do not raise, a store call that has obtained its
  connection returns it, and ends either in success or in a rollback and
  \<open>StorageError\<close>.
\<close>

lemma store_data_when_handlers_succeed:
  assumes "in_use s < maxconn s" and "\<not> raises OpGetConn"
    and "\<not> raises OpRollback" and "\<not> raises OpClose" and "\<not> raises OpPutConn"
  shows "in_use (snd (pg_store_data lib raises data s)) = in_use s \<and>
         last (events (snd (pg_store_data lib raises data s))) = PutConn \<and>
         (fst (pg_store_data lib raises data s) = Inr () \<and>
            count_list (events (snd (pg_store_data lib raises data s))) Rollback
              = count_list (events s) Rollback \<or>
          (\<exists>e. fst (pg_store_data lib raises data s) = Inl (StorageError (''Database error: '' @ e))) \<and>
            (take 2 (rev (events (snd (pg_store_data lib raises data s)))) = [PutConn, Rollback] \<or>
             take 3 (rev (events (snd (pg_store_data lib raises data s)))) = [PutConn, CloseCursor, Rollback]) \<and>
            table_rows (snd (pg_store_data lib raises data s)) = table_rows s)"
proof -
  let ?s0 = "s\<lparr>in_use := Suc (in_use s), events := events s @ [GetConn]\<rparr>"
  let ?c0 = "\<lparr>work_tables = tables s, work_rows = table_rows s\<rparr>"
  obtain exc cursor s1 where st: "store_try lib raises data (?s0, ?c0) = (exc, cursor, s1)"
    by (cases "store_try lib raises data (?s0, ?c0)")
  have "work_rows ?c0 = table_rows ?s0" by simp
  note tp = store_try_props [OF this, of lib raises data, unfolded st]
  note hp = store_handlers_ok [OF assms(3-5), of exc cursor s1]
  note hq = store_handlers_props [of raises exc cursor s1]
  have eq: "pg_store_data lib raises data s = store_handlers raises (exc, cursor, s1)"
    using assms(1,2) by (simp add: pg_store_data_unfold st)
  show ?thesis
  proof (cases exc)
    case None
    with tp hp hq show ?thesis unfolding eq by simp
  next
    case (Some e)
    with tp hp hq show ?thesis unfolding eq by simp
  qed
qed

lemmas pg_eval =
  pg_results create_if_not_exists_def table_name_of_def fstring_def
  dict_get_def determine_table_schema_def schema_step_def column_type_def
  example_lib_def empty_db_def no_db_error_def insert_rejected_def connection_dropped_def
  close_raises_def

section \<open>Storage defaults: lemmas\<close>

lemma pg_store_no_raise:
  assumes "in_use s < maxconn s" and "\<forall>op. \<not> raises op" and "data_for_insert lib data = Some row"
  shows "pg_store_data lib raises data s =
     (Inr (),
      s\<lparr>tables := work_tables (create_if_not_exists
           (table_name_of lib (dict_get data ''source'' (VStr ''unknown''))
              (dict_get data ''data_type'' (VStr ''general'')))
           (determine_table_schema data) \<lparr>work_tables = tables s, work_rows = table_rows s\<rparr>),
        table_rows := table_rows s @ [(table_name_of lib (dict_get data ''source'' (VStr ''unknown''))
           (dict_get data ''data_type'' (VStr ''general'')), row)],
        events := events s @
          [GetConn, OpenCursor,
           CreateTableIfNotExists (table_name_of lib (dict_get data ''source'' (VStr ''unknown''))
             (dict_get data ''data_type'' (VStr ''general''))) (determine_table_schema data),
           Commit, CloseCursor, OpenCursor,
           InsertInto (table_name_of lib (dict_get data ''source'' (VStr ''unknown''))
             (dict_get data ''data_type'' (VStr ''general''))) row,
           Commit, CloseCursor, PutConn]\<rparr>)"
  using assms by (simp add: pg_results work_rows_create_if_not_exists)

section \<open>Claims about schema inference\<close>

text \<open>
  Claim C1, as stated, has every null-valued field left out of the inferred schema.
  The test for the name \<open>raw_data\<close> comes first in the source, so a record whose
  \<open>raw_data\<close> field is null still gets a \<open>JSONB\<close> column for it.
\<close>

theorem schema_null_raw_data_counterexample:
  "map_of (determine_table_schema [(''source'', VStr ''x''), (''raw_data'', VNone)]) ''raw_data''
     = Some ''JSONB''"
  by (simp add: determine_table_schema_def schema_step_def column_type_def)

text \<open>
  Claim C1, amended: for every record (its keys distinct, as those of a dict are) and
  every field \<open>k\<close> with value \<open>v\<close> in it, the inferred schema gives \<open>k\<close> the type
  \<open>JSONB\<close> when \<open>k\<close> is \<open>raw_data\<close>, whatever the value (null included); for any
  other name, a string gives \<open>TEXT\<close>, an integer \<open>BIGINT\<close>, a float
  \<open>DOUBLE PRECISION\<close>, a list whose items are all strings \<open>TEXT[]\<close>, any other list
  whose items are all numbers \<open>DOUBLE PRECISION[]\<close>, every other list and every
  nested mapping \<open>JSONB\<close>, and a null value leaves \<open>k\<close> out of the schema. For the
  example record of the specification the schema maps \<open>count\<close> to \<open>BIGINT\<close>,
  \<open>label\<close> to \<open>TEXT\<close>, \<open>ratio\<close> to \<open>DOUBLE PRECISION\<close>, \<open>tags\<close> to \<open>TEXT[]\<close>
  and \<open>meta\<close> to \<open>JSONB\<close>.
\<close>

theorem schema_inference_rules:
  assumes "distinct (map fst data)" and "(k, v) \<in> set data"
  shows "(k = ''raw_data'' \<longrightarrow> map_of (determine_table_schema data) k = Some ''JSONB'') \<and>
         (k \<noteq> ''raw_data'' \<longrightarrow>
            (\<forall>s. v = VStr s \<longrightarrow> map_of (determine_table_schema data) k = Some ''TEXT'') \<and>
            (\<forall>i. v = VInt i \<longrightarrow> map_of (determine_table_schema data) k = Some ''BIGINT'') \<and>
            (\<forall>x. v = VFloat x \<longrightarrow>
                 map_of (determine_table_schema data) k = Some ''DOUBLE PRECISION'') \<and>
            (\<forall>xs. v = VList xs \<longrightarrow>
                 map_of (determine_table_schema data) k =
                   Some (if list_all isinstance_str xs then ''TEXT[]''
                         else if list_all (\<lambda>item. isinstance_int item \<or> isinstance_float item) xs
                           then ''DOUBLE PRECISION[]''
                         else ''JSONB'')) \<and>
            (\<forall>d. v = VDict d \<longrightarrow> map_of (determine_table_schema data) k = Some ''JSONB'') \<and>
            (v = VNone \<longrightarrow> map_of (determine_table_schema data) k = None)) \<and>
         map_of (determine_table_schema example_record) ''count'' = Some ''BIGINT'' \<and>
         map_of (determine_table_schema example_record) ''label'' = Some ''TEXT'' \<and>
         map_of (determine_table_schema example_record) ''ratio'' = Some ''DOUBLE PRECISION'' \<and>
         map_of (determine_table_schema example_record) ''tags'' = Some ''TEXT[]'' \<and>
         map_of (determine_table_schema example_record) ''meta'' = Some ''JSONB''"
proof -
  from assms have look: "map_of data k = Some v"
    by (simp add: map_of_eq_Some_iff)
  have sch: "map_of (determine_table_schema data) k = column_type k v"
    using assms(1) look by (simp add: map_of_determine_table_schema)
  have general:
    "(k = ''raw_data'' \<longrightarrow> column_type k v = Some ''JSONB'') \<and>
     (k \<noteq> ''raw_data'' \<longrightarrow>
        (\<forall>s. v = VStr s \<longrightarrow> column_type k v = Some ''TEXT'') \<and>
        (\<forall>i. v = VInt i \<longrightarrow> column_type k v = Some ''BIGINT'') \<and>
        (\<forall>x. v = VFloat x \<longrightarrow> column_type k v = Some ''DOUBLE PRECISION'') \<and>
        (\<forall>xs. v = VList xs \<longrightarrow>
             column_type k v =
               Some (if list_all isinstance_str xs then ''TEXT[]''
                     else if list_all (\<lambda>item. isinstance_int item \<or> isinstance_float item) xs
                       then ''DOUBLE PRECISION[]''
                     else ''JSONB'')) \<and>
        (\<forall>d. v = VDict d \<longrightarrow> column_type k v = Some ''JSONB'') \<and>
        (v = VNone \<longrightarrow> column_type k v = None))"
    by (simp add: column_type_def)
  have example:
    "map_of (determine_table_schema example_record) ''count'' = Some ''BIGINT'' \<and>
     map_of (determine_table_schema example_record) ''label'' = Some ''TEXT'' \<and>
     map_of (determine_table_schema example_record) ''ratio'' = Some ''DOUBLE PRECISION'' \<and>
     map_of (determine_table_schema example_record) ''tags'' = Some ''TEXT[]'' \<and>
     map_of (determine_table_schema example_record) ''meta'' = Some ''JSONB''"
    by (simp add: determine_table_schema_example)
  show ?thesis
    unfolding sch
    by (rule conjI [OF conjunct1 [OF general] conjI [OF conjunct2 [OF general] example]])
qed

theorem schema_inference_rules_witness:
  "map_of (determine_table_schema
      [(''price'', VList [VInt 1, VFloat 2.5]), (''note'', VNone), (''raw_data'', VNone)]) ''price''
     = Some ''DOUBLE PRECISION[]'' \<and>
   map_of (determine_table_schema
      [(''price'', VList [VInt 1, VFloat 2.5]), (''note'', VNone), (''raw_data'', VNone)]) ''note''
     = None \<and>
   map_of (determine_table_schema
      [(''price'', VList [VInt 1, VFloat 2.5]), (''note'', VNone), (''raw_data'', VNone)]) ''raw_data''
     = Some ''JSONB''"
  using schema_inference_rules
          [of "[(''price'', VList [VInt 1, VFloat 2.5]), (''note'', VNone), (''raw_data'', VNone)]"
              "''price''" "VList [VInt 1, VFloat 2.5]"]
        schema_inference_rules
          [of "[(''price'', VList [VInt 1, VFloat 2.5]), (''note'', VNone), (''raw_data'', VNone)]"
              "''note''" VNone]
        schema_inference_rules
          [of "[(''price'', VList [VInt 1, VFloat 2.5]), (''note'', VNone), (''raw_data'', VNone)]"
              "''raw_data''" VNone]
  by simp

text \<open>
  Claim C9: a field whose value is a boolean, and whose name is not \<open>raw_data\<close>, gets
  the column type \<open>BIGINT\<close>: \<open>isinstance(value, int)\<close> holds of a boolean, and no
  branch of the source asks for \<open>bool\<close>.
\<close>

theorem schema_boolean_is_bigint:
  assumes "distinct (map fst data)" and "(k, VBool b) \<in> set data" and "k \<noteq> ''raw_data''"
  shows "map_of (determine_table_schema data) k = Some ''BIGINT''"
proof -
  from assms(1,2) have "map_of data k = Some (VBool b)"
    by (simp add: map_of_eq_Some_iff)
  with assms(1) have "map_of (determine_table_schema data) k = column_type k (VBool b)"
    by (simp add: map_of_determine_table_schema)
  with assms(3) show ?thesis
    by (simp add: column_type_def)
qed

theorem schema_boolean_is_bigint_witness:
  "map_of (determine_table_schema [(''source'', VStr ''x''), (''active'', VBool True)]) ''active''
     = Some ''BIGINT''"
  using schema_boolean_is_bigint [of "[(''source'', VStr ''x''), (''active'', VBool True)]" "''active''" True]
  by simp

section \<open>Claims about the relational sink\<close>

text \<open>
  Claim C2, as stated, has schema inference run at most once per table name, only
  while the table is not yet known to exist. The source keeps no record of known
  tables: every store call infers a schema from its record and issues
  \<open>CREATE TABLE IF NOT EXISTS\<close> with it. Two records stored for the table
  \<open>x_y\<close> give two such statements, the second with the schema of the second record;
  the table keeps the first schema, and the second insert, which names a column the
  table lacks and which the engine rejects, is rolled back.
\<close>

theorem schema_inferred_on_every_store_counterexample:
  "events (snd (pg_store_all example_lib
      [(no_db_error, [(''source'', VStr ''x''), (''data_type'', VStr ''y''), (''a'', VInt 1)]),
       (insert_rejected, [(''source'', VStr ''x''), (''data_type'', VStr ''y''), (''b'', VStr ''s'')])]
      empty_db))
   = [GetConn, OpenCursor,
      CreateTableIfNotExists ''x_y'' [(''source'', ''TEXT''), (''data_type'', ''TEXT''), (''a'', ''BIGINT'')],
      Commit, CloseCursor, OpenCursor,
      InsertInto ''x_y'' [(''source'', VStr ''x''), (''data_type'', VStr ''y''), (''a'', VInt 1)],
      Commit, CloseCursor, PutConn,
      GetConn, OpenCursor,
      CreateTableIfNotExists ''x_y'' [(''source'', ''TEXT''), (''data_type'', ''TEXT''), (''b'', ''TEXT'')],
      Commit, CloseCursor, OpenCursor,
      LogError ''Error storing data to database: INSERT failed'', Rollback, CloseCursor, PutConn]"
  by (simp add: pg_eval)

text \<open>
  Claim C2, amended: schema inference runs on every store call that reaches the
  \<open>CREATE TABLE IF NOT EXISTS\<close> statement, which carries the schema inferred from
  that call's record; the statement takes effect only when the table does not exist
  yet. So a store call leaves the schema of every table as it was, except that the
  table it targets, when new, gets the schema inferred from this first record; and
  over any sequence of store calls a table that exists keeps its schema: later records
  never add a column.
\<close>

theorem table_schema_fixed_at_first_insert:
  "(in_use s < maxconn s \<and> \<not> raises OpGetConn \<and> \<not> raises OpCreateCursor \<and>
      \<not> raises OpCreateExecute \<longrightarrow>
      CreateTableIfNotExists
        (table_name_of lib (dict_get data ''source'' (VStr ''unknown''))
           (dict_get data ''data_type'' (VStr ''general'')))
        (determine_table_schema data)
      \<in> set (drop (length (events s)) (events (snd (pg_store_data lib raises data s))))) \<and>
   (map_of (tables (snd (pg_store_data lib raises data s))) t = map_of (tables s) t \<or>
    (t = table_name_of lib (dict_get data ''source'' (VStr ''unknown''))
           (dict_get data ''data_type'' (VStr ''general'')) \<and>
     map_of (tables s) t = None \<and>
     map_of (tables (snd (pg_store_data lib raises data s))) t = Some (determine_table_schema data))) \<and>
   (map_of (tables s) t = Some schema \<longrightarrow>
      map_of (tables (snd (pg_store_all lib calls s))) t = Some schema)"
  using inference_every_call [of s raises lib data] tables_first_wins [of lib raises data s t]
    tables_fixed_all [of s t schema lib calls]
  by blast

theorem table_schema_fixed_at_first_insert_witness:
  "map_of (tables (snd (pg_store_all example_lib
      [(no_db_error, [(''source'', VStr ''x''), (''data_type'', VStr ''y''), (''b'', VStr ''s'')]),
       (insert_rejected, [(''source'', VStr ''x''), (''data_type'', VStr ''y''), (''c'', VFloat 2)])]
      (empty_db\<lparr>tables := [(''x_y'', [(''source'', ''TEXT''), (''data_type'', ''TEXT''), (''a'', ''BIGINT'')])]\<rparr>))))
     ''x_y''
   = Some [(''source'', ''TEXT''), (''data_type'', ''TEXT''), (''a'', ''BIGINT'')] \<and>
   CreateTableIfNotExists ''x_y'' [(''source'', ''TEXT''), (''data_type'', ''TEXT''), (''b'', ''TEXT'')]
     \<in> set (events (snd (pg_store_data example_lib no_db_error
          [(''source'', VStr ''x''), (''data_type'', VStr ''y''), (''b'', VStr ''s'')]
          (empty_db\<lparr>tables := [(''x_y'', [(''source'', ''TEXT''), (''data_type'', ''TEXT''), (''a'', ''BIGINT'')])]\<rparr>))))"
  using table_schema_fixed_at_first_insert
    [of "empty_db\<lparr>tables := [(''x_y'', [(''source'', ''TEXT''), (''data_type'', ''TEXT''), (''a'', ''BIGINT'')])]\<rparr>"
        no_db_error example_lib
        "[(''source'', VStr ''x''), (''data_type'', VStr ''y''), (''b'', VStr ''s'')]"
        "''x_y''"
        "[(''source'', ''TEXT''), (''data_type'', ''TEXT''), (''a'', ''BIGINT'')]"
        "[(no_db_error, [(''source'', VStr ''x''), (''data_type'', VStr ''y''), (''b'', VStr ''s'')]),
          (insert_rejected, [(''source'', VStr ''x''), (''data_type'', VStr ''y''), (''c'', VFloat 2)])]"]
  by (simp add: pg_eval)

text \<open>
  Claim C7 holds of the store call as long as its own handlers succeed
  (\<open>store_data_when_handlers_succeed\<close>), but the source calls \<open>conn.rollback()\<close>
  in the \<open>except\<close> clause and \<open>cursor.close()\<close> in the \<open>finally\<close> clause
  unguarded. When the connection drops before the \<open>INSERT\<close>, the \<open>execute\<close>
  raises, the rollback raises in its turn, and the caller gets the driver's exception:
  no rollback has taken place and no \<open>StorageError\<close> is raised. When
  \<open>cursor.close()\<close> raises after a rejected \<open>INSERT\<close>, \<open>putconn\<close> is never
  reached: the connection stays checked out and the caller again gets the driver's
  exception.
\<close>

theorem store_data_handler_raises:
  "pg_store_data example_lib connection_dropped [(''source'', VStr ''x''), (''a'', VInt 1)] empty_db
   = (Inl (DriverError ''rollback failed''),
      \<lparr>tables = [(''x_general'', [(''source'', ''TEXT''), (''a'', ''BIGINT'')])], table_rows = [],
       in_use = 0, maxconn = 10,
       events = [GetConn, OpenCursor,
                 CreateTableIfNotExists ''x_general'' [(''source'', ''TEXT''), (''a'', ''BIGINT'')],
                 Commit, CloseCursor, OpenCursor,
                 LogError ''Error storing data to database: INSERT failed'', CloseCursor,
                 PutConn]\<rparr>) \<and>
   pg_store_data example_lib close_raises [(''source'', VStr ''x''), (''a'', VInt 1)] empty_db
   = (Inl (DriverError ''cursor.close failed''),
      \<lparr>tables = [(''x_general'', [(''source'', ''TEXT''), (''a'', ''BIGINT'')])], table_rows = [],
       in_use = 1, maxconn = 10,
       events = [GetConn, OpenCursor,
                 CreateTableIfNotExists ''x_general'' [(''source'', ''TEXT''), (''a'', ''BIGINT'')],
                 Commit, CloseCursor, OpenCursor,
                 LogError ''Error storing data to database: INSERT failed'', Rollback]\<rparr>)"
  by (simp add: pg_eval)

section \<open>Claim about the defaults for source and data type\<close>

text \<open>
  Claim C10: for every record whose \<open>source\<close> and \<open>data_type\<close> fields are each
  either absent or a string, every sink uses \<open>unknown\<close> for an absent source and
  \<open>general\<close> for an absent data type, and the absence itself makes no sink raise:
  each sink goes on to the operating system or the database with the names built from
  the defaults, and what happens then is the verdict of the operating system or the
  engine on those very calls.
  \<^item> The file sink makes the directory \<open>join(join(data_dir, source), data_type)\<close>, and
    if the operating system raises neither on that nor on the write of the file in it
    (and the asset is a string or absent and the record can be encoded), the record is
    stored there.
  \<^item> The CSV sink makes the directory \<open>join(data_dir, source)\<close> and no other; if the
    operating system raises neither on that nor on the write of
    \<open>join(join(data_dir, source), data_type.csv)\<close>, the row is written there; if it
    raises on the write, the sink raises \<open>StorageError\<close> with the directory made.
  \<^item> The relational sink issues its \<open>CREATE TABLE IF NOT EXISTS\<close> for the table
    \<open>source_datatype\<close> whenever the call gets that far; if no call to the driver
    raises, the engine accepting both statements, the row is inserted into that table,
    which is created with the inferred schema if it was new.
  \<^item> With both fields absent and a plain \<open>data_dir\<close> the names are
    \<open>data_dir/unknown/general\<close>, \<open>data_dir/unknown/general.csv\<close> and
    \<open>unknown_general\<close>.
\<close>

theorem storage_defaults:
  assumes "map_of data ''source'' = map_option VStr src_opt"
    and "map_of data ''data_type'' = map_option VStr dt_opt"
  shows
    "(let src = (case src_opt of None \<Rightarrow> ''unknown'' | Some x \<Rightarrow> x);
          dt = (case dt_opt of None \<Rightarrow> ''general'' | Some x \<Rightarrow> x);
          directory = os_path_join (os_path_join (data_dir st) src) dt;
          json_path = os_path_join directory
            (stamp @ ''_'' @ str_replace CHR '':'' CHR ''-'' (str_replace CHR ''/'' CHR ''-'' a)
               @ ''.json'');
          csv_dir = os_path_join (data_dir st) src;
          csv_path = os_path_join csv_dir (dt @ ''.csv'');
          table_name = src @ ''_'' @ dt
      in (storage_type st = ''file'' \<and> \<not> makedirs_raises os directory \<and> \<not> write_raises os json_path \<and>
            dict_get data ''asset'' (VStr ''general'') = VStr a \<and>
            json_dumps lib (VDict data) \<noteq> None \<longrightarrow>
            file_store_data lib stamp os st data fs =
              (Inr (),
               fs\<lparr>dirs := dirs fs @ [directory],
                  files := AList.update json_path [JsonDoc data] (files fs)\<rparr>)) \<and>
         (storage_type st = ''csv'' \<and> \<not> makedirs_raises os csv_dir \<and> \<not> write_raises os csv_path \<longrightarrow>
            fst (file_store_data lib stamp os st data fs) = Inr () \<and>
            dirs (snd (file_store_data lib stamp os st data fs)) = dirs fs @ [csv_dir] \<and>
            map_of (files (snd (file_store_data lib stamp os st data fs))) csv_path =
              Some (case map_of (files fs) csv_path of
                      None \<Rightarrow> [CsvHeader (map fst (json_normalize lib data)), CsvRow (json_normalize lib data)]
                    | Some old \<Rightarrow> old @ [CsvRow (json_normalize lib data)])) \<and>
         (storage_type st = ''csv'' \<and> \<not> makedirs_raises os csv_dir \<and> write_raises os csv_path \<longrightarrow>
            file_store_data lib stamp os st data fs =
              (Inl (StorageError ''Error storing data to CSV: OSError''),
               fs\<lparr>dirs := dirs fs @ [csv_dir]\<rparr>)) \<and>
         (in_use s < maxconn s \<and> \<not> raises OpGetConn \<and> \<not> raises OpCreateCursor \<and>
            \<not> raises OpCreateExecute \<longrightarrow>
            CreateTableIfNotExists table_name (determine_table_schema data)
              \<in> set (drop (length (events s)) (events (snd (pg_store_data lib raises data s))))) \<and>
         (in_use s < maxconn s \<and> (\<forall>op. \<not> raises op) \<and> data_for_insert lib data = Some row \<longrightarrow>
            fst (pg_store_data lib raises data s) = Inr () \<and>
            table_rows (snd (pg_store_data lib raises data s)) = table_rows s @ [(table_name, row)] \<and>
            (map_of (tables s) table_name = None \<longrightarrow>
               tables (snd (pg_store_data lib raises data s)) =
                 tables s @ [(table_name, determine_table_schema data)])) \<and>
         (src_opt = None \<and> dt_opt = None \<and> data_dir st \<noteq> [] \<and> last (data_dir st) \<noteq> CHR ''/'' \<longrightarrow>
            directory = data_dir st @ ''/unknown/general'' \<and>
            csv_path = data_dir st @ ''/unknown/general.csv'' \<and>
            table_name = ''unknown_general''))"
proof -
  define src where "src = (case src_opt of None \<Rightarrow> ''unknown'' | Some x \<Rightarrow> x)"
  define dt where "dt = (case dt_opt of None \<Rightarrow> ''general'' | Some x \<Rightarrow> x)"
  have source: "dict_get data ''source'' (VStr ''unknown'') = VStr src"
    using assms(1) by (simp add: dict_get_def src_def split: option.splits)
  have data_type: "dict_get data ''data_type'' (VStr ''general'') = VStr dt"
    using assms(2) by (simp add: dict_get_def dt_def split: option.splits)
  have name: "table_name_of lib (VStr src) (VStr dt) = src @ ''_'' @ dt"
    by (simp add: table_name_of_def fstring_def)
  have file_part:
    "storage_type st = ''file'' \<and> \<not> makedirs_raises os (os_path_join (os_path_join (data_dir st) src) dt) \<and>
       \<not> write_raises os (os_path_join (os_path_join (os_path_join (data_dir st) src) dt)
            (stamp @ ''_'' @ str_replace CHR '':'' CHR ''-'' (str_replace CHR ''/'' CHR ''-'' a)
               @ ''.json'')) \<and>
       dict_get data ''asset'' (VStr ''general'') = VStr a \<and>
       json_dumps lib (VDict data) \<noteq> None \<longrightarrow>
     file_store_data lib stamp os st data fs =
       (Inr (),
        fs\<lparr>dirs := dirs fs @ [os_path_join (os_path_join (data_dir st) src) dt],
           files := AList.update
             (os_path_join (os_path_join (os_path_join (data_dir st) src) dt)
                (stamp @ ''_'' @ str_replace CHR '':'' CHR ''-'' (str_replace CHR ''/'' CHR ''-'' a)
                   @ ''.json''))
             [JsonDoc data] (files fs)\<rparr>)"
    by (auto simp: file_store_data_def store_to_file_def source data_type Let_def)
  have csv_part:
    "storage_type st = ''csv'' \<and> \<not> makedirs_raises os (os_path_join (data_dir st) src) \<and>
       \<not> write_raises os (os_path_join (os_path_join (data_dir st) src) (dt @ ''.csv'')) \<longrightarrow>
     fst (file_store_data lib stamp os st data fs) = Inr () \<and>
     dirs (snd (file_store_data lib stamp os st data fs)) = dirs fs @ [os_path_join (data_dir st) src] \<and>
     map_of (files (snd (file_store_data lib stamp os st data fs)))
         (os_path_join (os_path_join (data_dir st) src) (dt @ ''.csv'')) =
       Some (case map_of (files fs) (os_path_join (os_path_join (data_dir st) src) (dt @ ''.csv'')) of
               None \<Rightarrow> [CsvHeader (map fst (json_normalize lib data)), CsvRow (json_normalize lib data)]
             | Some old \<Rightarrow> old @ [CsvRow (json_normalize lib data)])"
    by (auto simp: file_store_data_def store_to_csv_def source data_type fstring_def Let_def
        update_conv' split: option.splits)
  have csv_fail_part:
    "storage_type st = ''csv'' \<and> \<not> makedirs_raises os (os_path_join (data_dir st) src) \<and>
       write_raises os (os_path_join (os_path_join (data_dir st) src) (dt @ ''.csv'')) \<longrightarrow>
     file_store_data lib stamp os st data fs =
       (Inl (StorageError ''Error storing data to CSV: OSError''),
        fs\<lparr>dirs := dirs fs @ [os_path_join (data_dir st) src]\<rparr>)"
    by (auto simp: file_store_data_def store_to_csv_def source data_type fstring_def Let_def)
  have create_part:
    "in_use s < maxconn s \<and> \<not> raises OpGetConn \<and> \<not> raises OpCreateCursor \<and>
       \<not> raises OpCreateExecute \<longrightarrow>
     CreateTableIfNotExists (src @ ''_'' @ dt) (determine_table_schema data)
       \<in> set (drop (length (events s)) (events (snd (pg_store_data lib raises data s))))"
    using inference_every_call [of s raises lib data] by (simp add: source data_type name)
  have insert_part:
    "in_use s < maxconn s \<and> (\<forall>op. \<not> raises op) \<and> data_for_insert lib data = Some row \<longrightarrow>
     fst (pg_store_data lib raises data s) = Inr () \<and>
     table_rows (snd (pg_store_data lib raises data s)) = table_rows s @ [(src @ ''_'' @ dt, row)] \<and>
     (map_of (tables s) (src @ ''_'' @ dt) = None \<longrightarrow>
        tables (snd (pg_store_data lib raises data s)) =
          tables s @ [(src @ ''_'' @ dt, determine_table_schema data)])"
    using pg_store_no_raise [of s raises lib data row]
    by (auto simp: source data_type name create_if_not_exists_def)
  have plain_part:
    "src_opt = None \<and> dt_opt = None \<and> data_dir st \<noteq> [] \<and> last (data_dir st) \<noteq> CHR ''/'' \<longrightarrow>
     os_path_join (os_path_join (data_dir st) src) dt = data_dir st @ ''/unknown/general'' \<and>
     os_path_join (os_path_join (data_dir st) src) (dt @ ''.csv'') = data_dir st @ ''/unknown/general.csv'' \<and>
     src @ ''_'' @ dt = ''unknown_general''"
    by (simp add: src_def dt_def os_path_join_def)
  from file_part csv_part csv_fail_part create_part insert_part plain_part show ?thesis
    unfolding Let_def src_def [symmetric] dt_def [symmetric] by blast
qed

theorem storage_defaults_witness:
  "file_store_data example_lib ''20240101_120000'' no_os_error \<lparr>storage_type = ''file'', data_dir = ''data''\<rparr>
      [(''value'', VInt 1)] empty_fs
     = (Inr (),
        \<lparr>dirs = [''data/unknown/general''],
         files = [(''data/unknown/general/20240101_120000_general.json'', [JsonDoc [(''value'', VInt 1)]])]\<rparr>) \<and>
   tables (snd (pg_store_data example_lib no_db_error [(''value'', VInt 1)] empty_db))
     = [(''unknown_general'', [(''value'', ''BIGINT'')])] \<and>
   table_rows (snd (pg_store_data example_lib no_db_error [(''value'', VInt 1)] empty_db))
     = [(''unknown_general'', [(''value'', VInt 1)])]"
  using storage_defaults
    [where data = "[(''value'', VInt 1)]" and src_opt = None and dt_opt = None and os = no_os_error
       and st = "\<lparr>storage_type = ''file'', data_dir = ''data''\<rparr>" and a = "''general''"
       and lib = example_lib and stamp = "''20240101_120000''" and fs = empty_fs and s = empty_db
       and raises = no_db_error and row = "[(''value'', VInt 1)]"]
  by (simp add: Let_def dict_get_def example_lib_def empty_db_def empty_fs_def no_os_error_def
      no_db_error_def os_path_join_def str_replace_def determine_table_schema_def schema_step_def
      column_type_def)

section \<open>Claims about the collection loop\<close>

text \<open>
  Claim C3: in every run of the loop, under every schedule, the loop runs the cycles of
  the schedule up to and including the first one during which it is stopped, and no
  other; in each of them it sleeps exactly \<open>max(0, I - d)\<close> for the production
  duration \<open>d\<close> of that cycle, so the clock advances by \<open>d + max(0, I - d)\<close> per
  cycle and no sleep is negative. When nobody stops the loop it runs every cycle of the
  schedule and is still running; and when in addition every production call takes at
  least \<open>I\<close>, every sleep is zero and the clock advances by the production
  durations alone: each next cycle starts the moment the previous production call ends.
\<close>

theorem collection_loop_sleep:
  "slept (run envs s) =
     slept s @ map (\<lambda>env. max 0 (interval s - duration env))
       (take (Suc (length (takeWhile (\<lambda>env. \<not> stop_during_collect env \<and> \<not> stop_during_sleep env) envs))) envs) \<and>
   clock (run envs s) =
     clock s + sum_list (map (\<lambda>env. duration env + max 0 (interval s - duration env))
       (take (Suc (length (takeWhile (\<lambda>env. \<not> stop_during_collect env \<and> \<not> stop_during_sleep env) envs))) envs)) \<and>
   (\<forall>t\<in>set (drop (length (slept s)) (slept (run envs s))). 0 \<le> t) \<and>
   ((\<forall>env\<in>set envs. \<not> stop_during_collect env \<and> \<not> stop_during_sleep env) \<longrightarrow>
      running (run envs s) \<and>
      slept (run envs s) = slept s @ map (\<lambda>env. max 0 (interval s - duration env)) envs \<and>
      clock (run envs s) =
        clock s + sum_list (map (\<lambda>env. duration env + max 0 (interval s - duration env)) envs)) \<and>
   ((\<forall>env\<in>set envs. \<not> stop_during_collect env \<and> \<not> stop_during_sleep env \<and>
        interval s \<le> duration env) \<longrightarrow>
      running (run envs s) \<and>
      slept (run envs s) = slept s @ replicate (length envs) 0 \<and>
      clock (run envs s) = clock s + sum_list (map duration envs))"
proof -
  let ?s0 = "s\<lparr>running := True, last_collection_time := clock s\<rparr>"
  let ?nostop = "\<lambda>env. \<not> stop_during_collect env \<and> \<not> stop_during_sleep env"
  let ?n = "Suc (length (takeWhile ?nostop envs))"
  have inv: "last_collection_time ?s0 = clock ?s0" and r0: "running ?s0" by simp_all
  from run_loop_exact [OF inv r0, of envs]
  have sl: "slept (run envs s) =
      slept s @ map (\<lambda>env. max 0 (interval s - duration env)) (take ?n envs)"
    and cl: "clock (run envs s) =
      clock s + sum_list (map (\<lambda>env. duration env + max 0 (interval s - duration env)) (take ?n envs))"
    by (simp_all add: run_def)
  have nonneg: "\<forall>t\<in>set (drop (length (slept s)) (slept (run envs s))). 0 \<le> t"
    by (auto simp: sl)
  have all: "take ?n envs = envs" if "\<forall>env\<in>set envs. ?nostop env"
  proof -
    have "\<forall>env\<in>set es. ?nostop env \<Longrightarrow> takeWhile ?nostop es = es" for es
      by (induction es) simp_all
    from this [OF that] have tw: "takeWhile ?nostop envs = envs" .
    show ?thesis unfolding tw by simp
  qed
  have run_all: "running (run envs s)" if "\<forall>env\<in>set envs. ?nostop env"
  proof -
    have "running t \<Longrightarrow> \<forall>env\<in>set es. ?nostop env \<Longrightarrow> running (run_loop es t)" for es t
      by (induction es arbitrary: t) (simp_all add: running_cycle)
    from this [OF r0 that] show ?thesis by (simp add: run_def)
  qed
  have part4: "(\<forall>env\<in>set envs. ?nostop env) \<longrightarrow>
      running (run envs s) \<and>
      slept (run envs s) = slept s @ map (\<lambda>env. max 0 (interval s - duration env)) envs \<and>
      clock (run envs s) =
        clock s + sum_list (map (\<lambda>env. duration env + max 0 (interval s - duration env)) envs)"
    using sl cl all run_all by simp
  have part5: "(\<forall>env\<in>set envs. \<not> stop_during_collect env \<and> \<not> stop_during_sleep env \<and>
        interval s \<le> duration env) \<longrightarrow>
      running (run envs s) \<and>
      slept (run envs s) = slept s @ replicate (length envs) 0 \<and>
      clock (run envs s) = clock s + sum_list (map duration envs)"
  proof
    assume late: "\<forall>env\<in>set envs. \<not> stop_during_collect env \<and> \<not> stop_during_sleep env \<and>
        interval s \<le> duration env"
    then have ns: "\<forall>env\<in>set envs. ?nostop env" by simp
    from late have zero: "map (\<lambda>env. max 0 (interval s - duration env)) envs = replicate (length envs) 0"
      by (induction envs) simp_all
    from late have same: "map (\<lambda>env. duration env + max 0 (interval s - duration env)) envs = map duration envs"
      by (induction envs) simp_all
    from part4 ns zero same
    show "running (run envs s) \<and>
      slept (run envs s) = slept s @ replicate (length envs) 0 \<and>
      clock (run envs s) = clock s + sum_list (map duration envs)"
      by simp
  qed
  from sl cl nonneg part4 part5 show ?thesis by blast
qed

theorem collection_loop_sleep_witness:
  "slept (run [\<lparr>outcome = Returned CNone, duration = 1, stop_during_collect = False, stop_during_sleep = False\<rparr>,
               \<lparr>outcome = Returned CNone, duration = 70, stop_during_collect = False, stop_during_sleep = False\<rparr>,
               \<lparr>outcome = Returned CNone, duration = 2, stop_during_collect = False, stop_during_sleep = False\<rparr>]
          \<lparr>cls_name = ''FedRatesCollector'', running = False, interval = 60, last_collection_time = 0,
           clock = 5, data_queue = [], error_log = [], slept = []\<rparr>) = [59, 0, 58] \<and>
   clock (run [\<lparr>outcome = Returned CNone, duration = 1, stop_during_collect = False, stop_during_sleep = False\<rparr>,
               \<lparr>outcome = Returned CNone, duration = 70, stop_during_collect = False, stop_during_sleep = False\<rparr>,
               \<lparr>outcome = Returned CNone, duration = 2, stop_during_collect = False, stop_during_sleep = False\<rparr>]
          \<lparr>cls_name = ''FedRatesCollector'', running = False, interval = 60, last_collection_time = 0,
           clock = 5, data_queue = [], error_log = [], slept = []\<rparr>) = 195 \<and>
   clock (run [\<lparr>outcome = Returned CNone, duration = 70, stop_during_collect = False, stop_during_sleep = False\<rparr>,
               \<lparr>outcome = Returned CNone, duration = 61, stop_during_collect = False, stop_during_sleep = False\<rparr>]
          \<lparr>cls_name = ''FedRatesCollector'', running = False, interval = 60, last_collection_time = 0,
           clock = 5, data_queue = [], error_log = [], slept = []\<rparr>) = 136"
  using collection_loop_sleep
    [of "[\<lparr>outcome = Returned CNone, duration = 1, stop_during_collect = False, stop_during_sleep = False\<rparr>,
          \<lparr>outcome = Returned CNone, duration = 70, stop_during_collect = False, stop_during_sleep = False\<rparr>,
          \<lparr>outcome = Returned CNone, duration = 2, stop_during_collect = False, stop_during_sleep = False\<rparr>]"
        "\<lparr>cls_name = ''FedRatesCollector'', running = False, interval = 60, last_collection_time = 0,
           clock = 5, data_queue = [], error_log = [], slept = []\<rparr>"]
    collection_loop_sleep
    [of "[\<lparr>outcome = Returned CNone, duration = 70, stop_during_collect = False, stop_during_sleep = False\<rparr>,
          \<lparr>outcome = Returned CNone, duration = 61, stop_during_collect = False, stop_during_sleep = False\<rparr>]"
        "\<lparr>cls_name = ''FedRatesCollector'', running = False, interval = 60, last_collection_time = 0,
           clock = 5, data_queue = [], error_log = [], slept = []\<rparr>"]
  by simp

text \<open>
  Claim C4: an exception raised by \<open>collect_data\<close> is caught inside the loop body: the
  cycle is the cycle of a production call that returned nothing, with one line added to
  the error log, and it leaves the running flag as a cycle without the exception does.
  A collector whose production step fails in every cycle, and which nobody stops, is
  still running after all the cycles of the schedule, with one logged failure and one
  sleep per cycle; so it is after 5 cycles, with 5 failures.
\<close>

theorem collection_loop_failure_isolation:
  "(outcome env = Raised e \<longrightarrow>
      cycle env s =
        (cycle (env\<lparr>outcome := Returned CNone\<rparr>) s)
          \<lparr>error_log := error_log s @ [cls_name s @ '' encountered an error: '' @ e]\<rparr> \<and>
      running (cycle env s) = running (cycle (env\<lparr>outcome := Returned CNone\<rparr>) s)) \<and>
   ((\<forall>env\<in>set envs. (\<exists>e. outcome env = Raised e) \<and> \<not> stop_during_collect env \<and> \<not> stop_during_sleep env) \<longrightarrow>
      running (run envs s) \<and>
      length (error_log (run envs s)) = length (error_log s) + length envs \<and>
      length (slept (run envs s)) = length (slept s) + length envs) \<and>
   ((\<exists>e. outcome env = Raised e) \<and> \<not> stop_during_collect env \<and> \<not> stop_during_sleep env \<longrightarrow>
      running (run (replicate 5 env) s) \<and>
      length (error_log (run (replicate 5 env) s)) = length (error_log s) + 5)"
proof -
  have one: "outcome env = Raised e \<longrightarrow>
      cycle env s =
        (cycle (env\<lparr>outcome := Returned CNone\<rparr>) s)
          \<lparr>error_log := error_log s @ [cls_name s @ '' encountered an error: '' @ e]\<rparr> \<and>
      running (cycle env s) = running (cycle (env\<lparr>outcome := Returned CNone\<rparr>) s)"
    by (simp add: cycle_def sleep_until_next_interval_def collect_phase_def stop_def Let_def)
  let ?s0 = "s\<lparr>running := True, last_collection_time := clock s\<rparr>"
  have r0: "running ?s0" by simp
  have many: "running (run envs' s) \<and>
      length (error_log (run envs' s)) = length (error_log s) + length envs' \<and>
      length (slept (run envs' s)) = length (slept s) + length envs'"
    if "\<forall>env\<in>set envs'. (\<exists>e. outcome env = Raised e) \<and> \<not> stop_during_collect env \<and> \<not> stop_during_sleep env"
    for envs'
    using run_loop_all_fail [OF r0 that] by (simp add: run_def)
  have five: "(\<exists>e. outcome env = Raised e) \<and> \<not> stop_during_collect env \<and> \<not> stop_during_sleep env \<longrightarrow>
      running (run (replicate 5 env) s) \<and>
      length (error_log (run (replicate 5 env) s)) = length (error_log s) + 5"
    using many [of "replicate 5 env"] by simp
  from one many [of envs] five show ?thesis by blast
qed

theorem collection_loop_failure_isolation_witness:
  "running (run (replicate 5 \<lparr>outcome = Raised ''timeout'', duration = 2, stop_during_collect = False,
                              stop_during_sleep = False\<rparr>)
               \<lparr>cls_name = ''NewsCollector'', running = False, interval = 60, last_collection_time = 0,
                clock = 0, data_queue = [], error_log = [], slept = []\<rparr>) \<and>
   length (error_log (run (replicate 5 \<lparr>outcome = Raised ''timeout'', duration = 2, stop_during_collect = False,
                              stop_during_sleep = False\<rparr>)
               \<lparr>cls_name = ''NewsCollector'', running = False, interval = 60, last_collection_time = 0,
                clock = 0, data_queue = [], error_log = [], slept = []\<rparr>)) = 5"
  using collection_loop_failure_isolation
    [of "\<lparr>outcome = Raised ''timeout'', duration = 2, stop_during_collect = False, stop_during_sleep = False\<rparr>"
        "''timeout''"
        "\<lparr>cls_name = ''NewsCollector'', running = False, interval = 60, last_collection_time = 0,
          clock = 0, data_queue = [], error_log = [], slept = []\<rparr>"
        "replicate 5 \<lparr>outcome = Raised ''timeout'', duration = 2, stop_during_collect = False,
                       stop_during_sleep = False\<rparr>"]
  by simp

text \<open>
  Claim C5, as stated, has the loop check the running flag again before each sleep.
  The source reads the flag in the \<open>while\<close> condition only: when \<open>stop\<close> is called
  during the production call of a cycle, the flag is off when that call returns, and
  the loop still sleeps, here for 59 of its 60 seconds.
\<close>

theorem sleep_after_stop_counterexample:
  "\<not> running (collect_phase
       \<lparr>outcome = Returned CNone, duration = 1, stop_during_collect = True, stop_during_sleep = False\<rparr>
       \<lparr>cls_name = ''NewsCollector'', running = True, interval = 60, last_collection_time = 0,
        clock = 0, data_queue = [], error_log = [], slept = []\<rparr>) \<and>
   slept (run [\<lparr>outcome = Returned CNone, duration = 1, stop_during_collect = True, stop_during_sleep = False\<rparr>]
       \<lparr>cls_name = ''NewsCollector'', running = False, interval = 60, last_collection_time = 0,
        clock = 0, data_queue = [], error_log = [], slept = []\<rparr>) = [59]"
  by (simp add: run_def cycle_def sleep_until_next_interval_def collect_phase_def stop_def)

text \<open>
  Claim C5, amended: the loop reads the running flag at the top of each cycle only.
  With the flag off there, it does nothing more: no production call, no sleep. With the
  flag on, a \<open>stop\<close> arriving during the cycle (during production or during the
  sleep) lets the cycle run to its end, its sleep of \<open>max(0, I - elapsed)\<close> included,
  and the loop leaves at the next check, whatever the schedule holds after it; so the
  shutdown latency is bounded by the rest of the current cycle, production and sleep.
\<close>

theorem stop_checked_at_top_of_cycle:
  "(\<not> running s \<longrightarrow> run_loop envs s = s) \<and>
   (running s \<and> (stop_during_collect env \<or> stop_during_sleep env) \<longrightarrow>
      run_loop (env # envs) s = cycle env s \<and>
      \<not> running (cycle env s) \<and>
      slept (cycle env s) =
        slept s @ [max 0 (interval s - (clock s + duration env - last_collection_time s))] \<and>
      clock (cycle env s) =
        clock s + duration env + max 0 (interval s - (clock s + duration env - last_collection_time s)))"
proof -
  have off: "\<not> running s \<longrightarrow> run_loop envs s = s"
    by (simp add: run_loop_not_running)
  have on: "running s \<and> (stop_during_collect env \<or> stop_during_sleep env) \<longrightarrow>
      run_loop (env # envs) s = cycle env s \<and> \<not> running (cycle env s)"
    using run_loop_not_running [of "cycle env s" envs] by (auto simp: running_cycle)
  from off on show ?thesis
    by (simp add: slept_cycle clock_cycle)
qed

theorem stop_checked_at_top_of_cycle_witness:
  "run_loop [\<lparr>outcome = Returned CNone, duration = 1, stop_during_collect = True, stop_during_sleep = False\<rparr>,
             \<lparr>outcome = Returned CNone, duration = 1, stop_during_collect = False, stop_during_sleep = False\<rparr>]
       \<lparr>cls_name = ''NewsCollector'', running = True, interval = 60, last_collection_time = 0,
        clock = 0, data_queue = [], error_log = [], slept = []\<rparr>
   = \<lparr>cls_name = ''NewsCollector'', running = False, interval = 60, last_collection_time = 60,
        clock = 60, data_queue = [], error_log = [], slept = [59]\<rparr>"
  using stop_checked_at_top_of_cycle
    [of "\<lparr>cls_name = ''NewsCollector'', running = True, interval = 60, last_collection_time = 0,
          clock = 0, data_queue = [], error_log = [], slept = []\<rparr>"
        "[\<lparr>outcome = Returned CNone, duration = 1, stop_during_collect = False, stop_during_sleep = False\<rparr>]"
        "\<lparr>outcome = Returned CNone, duration = 1, stop_during_collect = True, stop_during_sleep = False\<rparr>"]
  by (simp add: cycle_def sleep_until_next_interval_def collect_phase_def stop_def)

section \<open>Claim about the drain worker\<close>

text \<open>
  Claim C6: whatever the sink, the record it is called with is the dequeued record
  itself when that record has a \<open>timestamp\<close> field; when it has none, it is the
  dequeued record with the one field \<open>timestamp\<close>, holding the capture time, added at
  the end: one field more, and every field of the dequeued record with its value.
\<close>

theorem process_data_timestamp:
  "(map_of data ''timestamp'' \<noteq> None \<longrightarrow>
      fst (snd (process_data now store data st)) = data \<and>
      fst (process_data now store data st) = snd (store data st)) \<and>
   (map_of data ''timestamp'' = None \<longrightarrow>
      fst (snd (process_data now store data st)) = data @ [(''timestamp'', VStr now)] \<and>
      fst (process_data now store data st) = snd (store (data @ [(''timestamp'', VStr now)]) st) \<and>
      length (fst (snd (process_data now store data st))) = Suc (length data) \<and>
      map_of (fst (snd (process_data now store data st))) ''timestamp'' = Some (VStr now) \<and>
      (\<forall>k. k \<noteq> ''timestamp'' \<longrightarrow>
           map_of (fst (snd (process_data now store data st))) k = map_of data k))"
proof -
  have absent: "AList.update ''timestamp'' (VStr now) data = data @ [(''timestamp'', VStr now)]"
    if "map_of data ''timestamp'' = None"
    using that by (induction data) (auto split: if_splits)
  show ?thesis
    by (auto simp: process_data_def absent Let_def map_add_def split: option.splits)
qed

theorem process_data_timestamp_witness:
  "fst (snd (process_data ''2024-01-01T00:00:00+00:00'' recording_sink
        [(''source'', VStr ''bls''), (''value'', VInt 3)] []))
     = [(''source'', VStr ''bls''), (''value'', VInt 3),
        (''timestamp'', VStr ''2024-01-01T00:00:00+00:00'')] \<and>
   fst (process_data ''2024-01-01T00:00:00+00:00'' recording_sink
        [(''source'', VStr ''bls''), (''timestamp'', VStr ''t0'')] [])
     = [[(''source'', VStr ''bls''), (''timestamp'', VStr ''t0'')]]"
  using process_data_timestamp
    [of "[(''source'', VStr ''bls''), (''value'', VInt 3)]" "''2024-01-01T00:00:00+00:00''"
        recording_sink "[]"]
    process_data_timestamp
    [of "[(''source'', VStr ''bls''), (''timestamp'', VStr ''t0'')]" "''2024-01-01T00:00:00+00:00''"
        recording_sink "[]"]
  by (simp add: recording_sink_def)

section \<open>Claim about the CAPTCHA solver\<close>

text \<open>
  Claim C8, as stated, has the solver function never pass an exception to its caller.
  When the external service raises, the source raises \<open>CaptchaError\<close>.
\<close>

theorem solve_captcha_raises_counterexample:
  "agent_solve_captcha failing_solver (Some ''KEY'')
       ''6Lc'' ''https://example.org''
     = Inl (CaptchaError ''Error solving CAPTCHA: connection reset'')"
  by (simp add: agent_solve_captcha_def solve_captcha_def failing_solver_def)

text \<open>
  Claim C8, amended: for every site key and page, the solver function returns the token
  when a key is configured and the service answers with a non-empty token; it returns
  the empty string when no key is configured or when the service gives no token; and
  when the service raises, it raises \<open>CaptchaError\<close> to its caller. Whenever it
  returns, it returns a string: the token or the empty string.
\<close>

theorem solve_captcha_results:
  "agent_solve_captcha solver api_key site_key url =
     (case api_key of
        None \<Rightarrow> Inr ''''
      | Some key \<Rightarrow>
          if key = '''' then Inr ''''
          else (case solver key url site_key of
                  Token token \<Rightarrow> Inr token
                | NoSolution \<Rightarrow> Inr ''''
                | SolverRaises e \<Rightarrow> Inl (CaptchaError (''Error solving CAPTCHA: '' @ e))))"
  by (simp add: agent_solve_captcha_def solve_captcha_def
      split: option.splits solver_outcome.splits)

end
